theory Spec2Isabelle
  imports Complex_Main
begin

section \<open>JavaScript values\<close>

text \<open>
  The worker handles JSON documents: the bodies of upstream model listings and of inbound
  chat requests. A parsed document is a \<open>json\<close> value. An object is the list of its
  properties in insertion order (after parsing, one property per key). A number is the
  parsed double: its value, or an infinity, which a literal too large for a double such as
  \<open>1e309\<close> parses to (a JSON text cannot denote NaN). The JavaScript value \<open>undefined\<close>,
  which a missing property evaluates to, is \<open>None\<close> of \<open>json option\<close>.
\<close>

datatype number = Finite rat | Infinity | MinusInfinity

datatype json =
    JNull
  | JBool bool
  | JNum number
  | JStr string
  | JArr "json list"
  | JObj "(string \<times> json) list"

text \<open>The exceptions that the worker's code can meet.\<close>

datatype js_error =
    TypeError             \<comment> \<open>reading a property of \<open>null\<close>; a \<open>Response\<close> refused for its reason or body\<close>
  | SyntaxError           \<comment> \<open>\<open>.json()\<close> on a body that is not JSON\<close>
  | RangeError            \<comment> \<open>a \<open>Response\<close> refused for its status\<close>
  | NetworkError string   \<comment> \<open>\<open>fetch\<close> rejected; the string is \<open>error.message\<close>\<close>
  | StatusError nat       \<comment> \<open>the \<open>Error\<close> thrown at line 104 for a non-ok status\<close>

text \<open>Truthiness, as \<open>!x\<close>, \<open>x && y\<close>, \<open>x || y\<close> and \<open>Boolean(x)\<close> decide it.\<close>

fun truthy :: "json \<Rightarrow> bool" where
  "truthy JNull = False"
| "truthy (JBool b) = b"
| "truthy (JNum n) = (n \<noteq> Finite 0)"
| "truthy (JStr s) = (s \<noteq> [])"
| "truthy (JArr xs) = True"
| "truthy (JObj kvs) = True"

fun Boolean :: "json option \<Rightarrow> bool" where
  "Boolean None = False"
| "Boolean (Some v) = truthy v"

fun isArray :: "json option \<Rightarrow> bool" where
  "isArray (Some (JArr xs)) = True"
| "isArray v = False"

fun elements :: "json option \<Rightarrow> json list" where
  "elements (Some (JArr xs)) = xs"
| "elements v = []"

text \<open>
  Property access \<open>v.k\<close> for the property names the worker reads (\<open>id\<close>, \<open>name\<close>,
  \<open>data\<close>, \<open>models\<close>, \<open>model\<close>): on \<open>null\<close> it throws a TypeError, on an object it is
  the property or \<open>undefined\<close>, on a boolean, number, string or array it is \<open>undefined\<close>
  (none of these names is on their prototypes).
\<close>

fun get_prop :: "json \<Rightarrow> string \<Rightarrow> js_error + json option" where
  "get_prop JNull k = Inl TypeError"
| "get_prop (JObj kvs) k = Inr (map_of kvs k)"
| "get_prop v k = Inr None"

text \<open>\<open>Array.prototype.map\<close> with a callback that may throw: the first throw ends the loop.\<close>

fun array_map :: "('a \<Rightarrow> js_error + 'b) \<Rightarrow> 'a list \<Rightarrow> js_error + 'b list" where
  "array_map f [] = Inr []"
| "array_map f (x # xs) =
     (case f x of
        Inl e \<Rightarrow> Inl e
      | Inr y \<Rightarrow> (case array_map f xs of Inl e \<Rightarrow> Inl e | Inr ys \<Rightarrow> Inr (y # ys)))"

text \<open>\<open>.filter(Boolean)\<close>: the truthy values, none of which is \<open>undefined\<close>.\<close>

fun filter_Boolean :: "json option list \<Rightarrow> json list" where
  "filter_Boolean [] = []"
| "filter_Boolean (None # vs) = filter_Boolean vs"
| "filter_Boolean (Some v # vs) = (if truthy v then v # filter_Boolean vs else filter_Boolean vs)"

text \<open>
  \<open>JSON.stringify\<close> on a parsed document, as the document that its text denotes: it
  writes \<open>null\<close> for a number that is not finite and every other value as it is.
\<close>

primrec JSON_stringify :: "json \<Rightarrow> json" where
  "JSON_stringify JNull = JNull"
| "JSON_stringify (JBool b) = JBool b"
| "JSON_stringify (JNum n) =
     (case n of Finite q \<Rightarrow> JNum (Finite q) | Infinity \<Rightarrow> JNull | MinusInfinity \<Rightarrow> JNull)"
| "JSON_stringify (JStr s) = JStr s"
| "JSON_stringify (JArr xs) = JArr (map JSON_stringify xs)"
| "JSON_stringify (JObj kvs) = JObj (map (map_prod id JSON_stringify) kvs)"

text \<open>The documents in which every number is finite.\<close>

primrec finite_json :: "json \<Rightarrow> bool" where
  "finite_json JNull = True"
| "finite_json (JBool b) = True"
| "finite_json (JNum n) = (case n of Finite q \<Rightarrow> True | Infinity \<Rightarrow> False | MinusInfinity \<Rightarrow> False)"
| "finite_json (JStr s) = True"
| "finite_json (JArr xs) = list_all id (map finite_json xs)"
| "finite_json (JObj kvs) = list_all id (map snd (map (map_prod id finite_json) kvs))"

section \<open>The model-list parsing of \<open>buildModelProviderMap\<close> (lines 109 to 116)\<close>

text \<open>The three callbacks: \<open>m => m.id || m.name\<close>, \<open>m => m.id\<close> and \<open>m => m.name\<close>.\<close>

definition id_or_name :: "json \<Rightarrow> js_error + json option" where
  "id_or_name m =
     (case get_prop m ''id'' of
        Inl e \<Rightarrow> Inl e
      | Inr i \<Rightarrow> if Boolean i then Inr i else get_prop m ''name'')"

definition map_filter_Boolean :: "(json \<Rightarrow> js_error + json option) \<Rightarrow> json list \<Rightarrow> js_error + json list" where
  "map_filter_Boolean f ms =
     (case array_map f ms of Inl e \<Rightarrow> Inl e | Inr vs \<Rightarrow> Inr (filter_Boolean vs))"

text \<open>
  \<open>parseModelList data\<close> is the value of the local variable \<open>models\<close> at line 118, or the
  exception thrown on the way.
\<close>

definition parseModelList :: "json \<Rightarrow> js_error + json list" where
  "parseModelList data =
     (if isArray (Some data) then map_filter_Boolean id_or_name (elements (Some data))
      else (case get_prop data ''data'' of
        Inl e \<Rightarrow> Inl e
      | Inr d \<Rightarrow>
          (if Boolean d \<and> isArray d
           then map_filter_Boolean (\<lambda>m. get_prop m ''id'') (elements d)
           else (case get_prop data ''models'' of
             Inl e \<Rightarrow> Inl e
           | Inr ms \<Rightarrow>
               (if Boolean ms \<and> isArray ms
                then map_filter_Boolean (\<lambda>m. get_prop m ''name'') (elements ms)
                else Inr [])))))"

section \<open>The provider registry\<close>

text \<open>
  One value of \<open>PROVIDER_CONFIG\<close>. The optional properties \<open>models\<close> and \<open>modelsPath\<close>
  are \<open>None\<close> where the object literal leaves them out. The registry is the list that
  \<open>Object.entries\<close> yields: the provider ids with their configurations, in the order of
  the literal.
\<close>

record ProviderConfig =
  name :: string
  upstreamHost :: string
  models :: "string list option"
  modelsPath :: "string option"
  chatPath :: string

type_synonym registry = "(string \<times> ProviderConfig) list"

definition WORKER_API_KEY :: string where
  "WORKER_API_KEY = ''1''"

definition PROVIDER_CONFIG :: registry where
  "PROVIDER_CONFIG =
    [(''api.airforce'',
        \<lparr>name = ''Airforce API'', upstreamHost = ''api.airforce'',
         models = Some [''gpt-5-mini'', ''gpt-4o-mini''], modelsPath = None,
         chatPath = ''/v1/chat/completions''\<rparr>),
     (''anondrop.net'',
        \<lparr>name = ''AnonDrop'', upstreamHost = ''anondrop.net'',
         models = None, modelsPath = Some ''/v1/models'',
         chatPath = ''/v1/chat/completions''\<rparr>),
     (''gpt4free.pro'',
        \<lparr>name = ''GPT4Free.pro'', upstreamHost = ''gpt4free.pro'',
         models = None, modelsPath = Some ''/v1/models'',
         chatPath = ''/v1/chat/completions''\<rparr>),
     (''gemini'',
        \<lparr>name = ''Google Gemini (via g4f)'', upstreamHost = ''g4f.dev'',
         models = None, modelsPath = Some ''/api/gemini/models'',
         chatPath = ''/api/gemini/chat/completions''\<rparr>),
     (''grok'',
        \<lparr>name = ''Grok (via g4f)'', upstreamHost = ''g4f.dev'',
         models = None, modelsPath = Some ''/api/grok/models'',
         chatPath = ''/api/grok/chat/completions''\<rparr>),
     (''pollinations.ai'',
        \<lparr>name = ''Pollinations.ai (via g4f)'', upstreamHost = ''g4f.dev'',
         models = None, modelsPath = Some ''/api/pollinations.ai/models'',
         chatPath = ''/api/pollinations.ai/chat/completions''\<rparr>),
     (''ollama'',
        \<lparr>name = ''Ollama (via g4f)'', upstreamHost = ''g4f.dev'',
         models = None, modelsPath = Some ''/api/ollama/models'',
         chatPath = ''/api/ollama/chat/completions''\<rparr>),
     (''huggingface'',
        \<lparr>name = ''HuggingFace (via g4f)'', upstreamHost = ''g4f.dev'',
         models = None,
         modelsPath = Some ''/api/huggingface/models?inference=warm&&expand[]=inferenceProviderMapping'',
         chatPath = ''/api/huggingface/chat/completions''\<rparr>)]"

text \<open>
  Truthiness of the two optional properties: an array is truthy even when empty, a string
  when it is not empty, \<open>undefined\<close> never.
\<close>

definition truthy_models :: "ProviderConfig \<Rightarrow> bool" where
  "truthy_models c = (models c \<noteq> None)"

definition truthy_modelsPath :: "ProviderConfig \<Rightarrow> bool" where
  "truthy_modelsPath c = (case modelsPath c of None \<Rightarrow> False | Some p \<Rightarrow> p \<noteq> [])"

text \<open>Line 89: \<open>config.models && !config.modelsPath\<close>; line 97: \<open>config.modelsPath\<close>.\<close>

definition is_static :: "ProviderConfig \<Rightarrow> bool" where
  "is_static c = (truthy_models c \<and> \<not> truthy_modelsPath c)"

definition is_dynamic :: "ProviderConfig \<Rightarrow> bool" where
  "is_dynamic c = truthy_modelsPath c"

section \<open>The routing table\<close>

text \<open>
  A value of the \<open>Map\<close> from model id to dispatch information. The keys are the values that
  the listings and the static lists provide, so any truthy JSON value can be one.
\<close>

record ModelEntry =
  providerId :: string
  upstreamHost :: string
  chatPath :: string

type_synonym RoutingTable = "(json \<times> ModelEntry) list"

text \<open>
  A \<open>Map\<close> compares keys with SameValueZero: strings, numbers, booleans and \<open>null\<close> by
  value, arrays and objects by reference. The values compared here are nodes of parsed
  documents, none of which is shared, so an array or object key equals no other key.
\<close>

fun primitive :: "json \<Rightarrow> bool" where
  "primitive (JArr xs) = False"
| "primitive (JObj kvs) = False"
| "primitive v = True"

definition sameValueZero :: "json \<Rightarrow> json \<Rightarrow> bool" where
  "sameValueZero a b = (primitive a \<and> a = b)"

text \<open>\<open>map.set(k, v)\<close> replaces the value of a present key in place and appends a new key.\<close>

fun Map_set :: "json \<Rightarrow> 'v \<Rightarrow> (json \<times> 'v) list \<Rightarrow> (json \<times> 'v) list" where
  "Map_set k v [] = [(k, v)]"
| "Map_set k v ((k', v') # t) =
     (if sameValueZero k' k then (k', v) # t else (k', v') # Map_set k v t)"

text \<open>\<open>map.get(k)\<close>, with \<open>None\<close> for \<open>undefined\<close>.\<close>

fun Map_get :: "(json \<times> 'v) list \<Rightarrow> json \<Rightarrow> 'v option" where
  "Map_get [] k = None"
| "Map_get ((k', v) # t) k = (if sameValueZero k' k then Some v else Map_get t k)"

definition Map_size :: "(json \<times> 'v) list \<Rightarrow> nat" where
  "Map_size t = length t"

section \<open>\<open>buildModelProviderMap\<close>\<close>

text \<open>
  The network is a parameter: \<open>net p\<close> is how the discovery \<open>fetch\<close> issued for provider
  \<open>p\<close> settles. A resolved response has its status and what \<open>response.json()\<close> gives
  (\<open>None\<close> when the body is not JSON and the promise rejects).
\<close>

record Response_in =
  in_status :: nat
  in_json :: "json option"

datatype fetch_outcome = Rejected string | Resolved Response_in

definition ok :: "Response_in \<Rightarrow> bool" where
  "ok r = (200 \<le> in_status r \<and> in_status r \<le> 299)"

text \<open>A discovery request fails when \<open>fetch\<close> rejects or the status is not a success.\<close>

definition fetch_failed :: "fetch_outcome \<Rightarrow> bool" where
  "fetch_failed out = (case out of Rejected msg \<Rightarrow> True | Resolved r \<Rightarrow> \<not> ok r)"

text \<open>The value stored at lines 91 and 119.\<close>

definition entry_of :: "string \<Rightarrow> ProviderConfig \<Rightarrow> ModelEntry" where
  "entry_of p c =
     \<lparr>providerId = p, upstreamHost = ProviderConfig.upstreamHost c,
      chatPath = ProviderConfig.chatPath c\<rparr>"

text \<open>The two \<open>forEach\<close> loops (lines 90 to 92 and 118 to 120).\<close>

definition register :: "string \<Rightarrow> ProviderConfig \<Rightarrow> json list \<Rightarrow> RoutingTable \<Rightarrow> RoutingTable" where
  "register p c ids t = foldl (\<lambda>t' modelId. Map_set modelId (entry_of p c) t') t ids"

text \<open>Line 98.\<close>

definition models_url :: "ProviderConfig \<Rightarrow> string" where
  "models_url c =
     ''https://'' @ ProviderConfig.upstreamHost c @ (case modelsPath c of None \<Rightarrow> [] | Some p \<Rightarrow> p)"

text \<open>
  Lines 99 to 116 of a dynamic provider's task, from the outcome of its \<open>fetch\<close>: the
  model ids it is about to register, or the exception that its \<open>catch\<close> receives.
\<close>

definition discover :: "fetch_outcome \<Rightarrow> js_error + json list" where
  "discover out =
     (case out of
        Rejected msg \<Rightarrow> Inl (NetworkError msg)
      | Resolved r \<Rightarrow>
          (if \<not> ok r then Inl (StatusError (in_status r))
           else (case in_json r of
                   None \<Rightarrow> Inl SyntaxError
                 | Some data \<Rightarrow> parseModelList data)))"

text \<open>
  One task of line 86, for the provider \<open>p\<close> with configuration \<open>c\<close>: the model ids
  that it hands to its \<open>forEach\<close>. A static provider (line 89) takes them from its list
  and a dynamic one (line 97) from its listing; a dynamic task that threw goes through its
  \<open>catch\<close>, which only logs, and a provider with neither property does nothing: both
  register no model.
\<close>

definition task_models :: "(string \<Rightarrow> fetch_outcome) \<Rightarrow> string \<times> ProviderConfig \<Rightarrow> json list" where
  "task_models net pc =
     (case pc of (p, c) \<Rightarrow>
        if is_static c then map JStr (case models c of None \<Rightarrow> [] | Some ms \<Rightarrow> ms)
        else if is_dynamic c then (case discover (net p) of Inl e \<Rightarrow> [] | Inr ids \<Rightarrow> ids)
        else [])"

definition provider_task :: "(string \<Rightarrow> fetch_outcome) \<Rightarrow> RoutingTable \<Rightarrow> string \<times> ProviderConfig \<Rightarrow> RoutingTable" where
  "provider_task net t pc = register (fst pc) (snd pc) (task_models net pc) t"

text \<open>The discovery requests of a build: one per dynamic provider, sent in registry order.\<close>

definition discovery_requests :: "registry \<Rightarrow> (string \<times> string) list" where
  "discovery_requests cfg =
     map (\<lambda>(p, c). (p, models_url c)) (filter (\<lambda>(p, c). is_dynamic c) cfg)"

text \<open>
  A task runs without interruption up to its first \<open>await\<close>. So during the call of
  \<open>Object.entries(...).map\<close> the tasks of the providers that are not dynamic run to their
  end, in registry order, and each dynamic task sends its request and suspends. The dynamic
  tasks resume as their responses arrive; from \<open>await response.json()\<close> to the end of the
  task nothing suspends, so each registers its models in one piece, in the order in which
  they complete: \<open>rank p\<close> is the time at which the task of provider \<open>p\<close> completes
  (tasks of equal rank in registry order).
\<close>

definition task_order :: "(string \<Rightarrow> nat) \<Rightarrow> registry \<Rightarrow> registry" where
  "task_order rank cfg =
     filter (\<lambda>(p, c). \<not> is_dynamic c) cfg
     @ sort_key (\<lambda>pc. rank (fst pc)) (filter (\<lambda>(p, c). is_dynamic c) cfg)"

text \<open>The local \<open>map\<close> once \<open>Promise.allSettled\<close> has resolved (line 127).\<close>

definition build_map :: "registry \<Rightarrow> (string \<Rightarrow> fetch_outcome) \<Rightarrow> (string \<Rightarrow> nat) \<Rightarrow> RoutingTable" where
  "build_map cfg net rank = foldl (provider_task net) [] (task_order rank cfg)"

text \<open>
  The state of the isolate: the global \<open>MODEL_PROVIDER_MAP\<close> (\<open>None\<close> is \<open>null\<close>), and,
  to count them, the discovery requests sent so far.
\<close>

record worker_state =
  MODEL_PROVIDER_MAP :: "RoutingTable option"
  fetched :: "(string \<times> string) list"

definition initial_state :: worker_state where
  "initial_state = \<lparr>MODEL_PROVIDER_MAP = None, fetched = []\<rparr>"

text \<open>
  A call of \<open>buildModelProviderMap\<close> in two parts: up to its \<open>await\<close> (line 127), where
  it has sent the discovery requests, and from there, where it assigns the global (line 128).
\<close>

definition build_begin :: "registry \<Rightarrow> worker_state \<Rightarrow> worker_state" where
  "build_begin cfg s = s\<lparr>fetched := fetched s @ discovery_requests cfg\<rparr>"

definition build_finish ::
  "registry \<Rightarrow> (string \<Rightarrow> fetch_outcome) \<Rightarrow> (string \<Rightarrow> nat) \<Rightarrow> worker_state \<Rightarrow> worker_state" where
  "build_finish cfg net rank s = s\<lparr>MODEL_PROVIDER_MAP := Some (build_map cfg net rank)\<rparr>"

definition buildModelProviderMap ::
  "registry \<Rightarrow> (string \<Rightarrow> fetch_outcome) \<Rightarrow> (string \<Rightarrow> nat) \<Rightarrow> worker_state \<Rightarrow> worker_state" where
  "buildModelProviderMap cfg net rank s = build_finish cfg net rank (build_begin cfg s)"

section \<open>Requests and responses\<close>

text \<open>
  An inbound request: its method (\<open>request.method\<close>), the parts of its URL, its \<open>Headers\<close> object as the
  function \<open>headers.get\<close> (\<open>None\<close> is \<open>null\<close>), and what \<open>request.json()\<close> gives
  (\<open>None\<close> when the body is not JSON and the promise rejects with a SyntaxError).
\<close>

record Request =
  request_method :: string
  url_protocol :: string
  url_hostname :: string
  url_pathname :: string
  headers_get :: "string \<Rightarrow> string option"
  json :: "json option"

text \<open>
  The request sent to the upstream (lines 203 to 215). Its body is the text
  \<open>JSON.stringify(requestBody)\<close>, kept as the document that this text denotes.
\<close>

record UpstreamRequest =
  up_url :: string
  up_method :: string
  up_headers :: "(string \<times> string) list"
  up_body :: json
  up_redirect :: string

text \<open>
  What the upstream answers: status, reason, \<open>headers.get('Content-Type')\<close> and the body
  stream (its chunks; \<open>None\<close> is a \<open>null\<close> body).
\<close>

record UpstreamResponse =
  res_status :: nat
  res_statusText :: string
  res_content_type :: "string option"
  res_body :: "string list option"

text \<open>
  The bodies of the worker's responses. The fixed texts of the source are not ASCII: each
  is a constructor, with the values that the template interpolates as arguments.
\<close>

datatype body =
    MethodNotAllowedText                \<comment> \<open>line 179\<close>
  | UnauthorizedText                    \<comment> \<open>line 184\<close>
  | MissingModelText                    \<comment> \<open>line 191\<close>
  | ModelNotFoundText json              \<comment> \<open>line 197, with \<open>modelId\<close>\<close>
  | UpstreamFailedText json js_error    \<comment> \<open>line 229, with \<open>modelId\<close> and the error of \<open>error.message\<close>\<close>
  | CatalogNotReadyText                 \<comment> \<open>line 238\<close>
  | RouteNotFoundText                   \<comment> \<open>line 165\<close>
  | ConsolePage string string           \<comment> \<open>the HTML of \<open>handleGuiRequest\<close>, with \<open>workerUrl\<close> and the key\<close>
  | JsonText json                       \<comment> \<open>a JSON text, as the document it denotes\<close>
  | UpstreamBody "string list option"   \<comment> \<open>\<open>upstreamResponse.body\<close>, passed on as it is\<close>

text \<open>A response, with the headers that the code sets.\<close>

record Response =
  status :: nat
  statusText :: string
  headers :: "(string \<times> string) list"
  body :: body

text \<open>\<open>new Response(text, {status: n})\<close>.\<close>

definition text_response :: "body \<Rightarrow> nat \<Rightarrow> Response" where
  "text_response b n = \<lparr>status = n, statusText = [], headers = [], body = b\<rparr>"

section \<open>\<open>handleModelsRequest\<close>\<close>

definition model_object :: "json \<times> ModelEntry \<Rightarrow> json" where
  "model_object kv =
     (case kv of (modelId, e) \<Rightarrow>
        JObj [(''id'', modelId), (''object'', JStr ''model''), (''owned_by'', JStr (providerId e))])"

definition handleModelsRequest :: "worker_state \<Rightarrow> Response" where
  "handleModelsRequest s =
     (case MODEL_PROVIDER_MAP s of
        None \<Rightarrow> text_response CatalogNotReadyText 503
      | Some t \<Rightarrow>
          \<lparr>status = 200, statusText = [],
           headers = [(''Content-Type'', ''application/json'')],
           body = JsonText (JSON_stringify
                     (JObj [(''object'', JStr ''list''), (''data'', JArr (map model_object t))]))\<rparr>)"

section \<open>\<open>handleChatCompletionRequest\<close>\<close>

text \<open>Line 183: \<open>!authHeader || authHeader !== `Bearer ${WORKER_API_KEY}`\<close>.\<close>

definition unauthorized :: "string option \<Rightarrow> bool" where
  "unauthorized authHeader =
     (case authHeader of
        None \<Rightarrow> True
      | Some h \<Rightarrow> h = [] \<or> h \<noteq> ''Bearer '' @ WORKER_API_KEY)"

text \<open>Lines 200 to 215.\<close>

definition outbound_headers :: "(string \<times> string) list" where
  "outbound_headers =
    [(''Content-Type'', ''application/json''),
     (''Accept'', ''*/*''),
     (''Origin'', ''https://g4f.dev''),
     (''Referer'', ''https://g4f.dev/''),
     (''User-Agent'', ''Mozilla/5.0 (Windows NT 10.0; Win64; x64) AppleWebKit/537.36 (KHTML, like Gecko) Chrome/142.0.0.0 Safari/537.36'')]"

definition upstream_request :: "ModelEntry \<Rightarrow> json \<Rightarrow> UpstreamRequest" where
  "upstream_request providerInfo requestBody =
     \<lparr>up_url = ''https://'' @ upstreamHost providerInfo @ chatPath providerInfo,
      up_method = ''POST'',
      up_headers = outbound_headers,
      up_body = JSON_stringify requestBody,
      up_redirect = ''follow''\<rparr>"

text \<open>
  \<open>new Response(body, {status, statusText, headers})\<close> with a stream or \<open>null\<close> as body,
  as the Fetch standard initialises a response: a status outside 200 to 599 is a RangeError;
  a \<open>statusText\<close> that is not a reason phrase (tab, space, visible and high characters
  only) is a TypeError; so is a body with a status that allows none. The header values
  passed at line 223 are read from a \<open>Headers\<close> object or literals, and are valid.
\<close>

definition reason_phrase :: "string \<Rightarrow> bool" where
  "reason_phrase s =
     list_all (\<lambda>c. of_char c = (9::nat) \<or> (32 \<le> (of_char c :: nat) \<and> of_char c \<noteq> (127::nat))) s"

definition null_body_status :: "nat \<Rightarrow> bool" where
  "null_body_status n = (n = 101 \<or> n = 103 \<or> n = 204 \<or> n = 205 \<or> n = 304)"

definition new_Response ::
  "string list option \<Rightarrow> nat \<Rightarrow> string \<Rightarrow> (string \<times> string) list \<Rightarrow> js_error + Response" where
  "new_Response b st reason hs =
     (if st < 200 \<or> 599 < st then Inl RangeError
      else if \<not> reason_phrase reason then Inl TypeError
      else if b \<noteq> None \<and> null_body_status st then Inl TypeError
      else Inr \<lparr>status = st, statusText = reason, headers = hs, body = UpstreamBody b\<rparr>)"

text \<open>
  Lines 217 to 230, from the outcome of \<open>fetch(upstreamRequest)\<close>. In line 223 an absent
  or empty \<open>Content-Type\<close> is falsy. The \<open>try\<close> holds the \<open>fetch\<close> and the construction
  of the response: what either throws reaches the \<open>catch\<close> of line 228.
\<close>

definition content_type_or_default :: "string option \<Rightarrow> string" where
  "content_type_or_default ct =
     (case ct of None \<Rightarrow> ''text/event-stream'' | Some v \<Rightarrow> if v = [] then ''text/event-stream'' else v)"

definition relay :: "json \<Rightarrow> js_error + UpstreamResponse \<Rightarrow> Response" where
  "relay modelId fetched_response =
     (case fetched_response of
        Inl error \<Rightarrow> text_response (UpstreamFailedText modelId error) 502
      | Inr upstreamResponse \<Rightarrow>
          (case new_Response (res_body upstreamResponse) (res_status upstreamResponse)
                  (res_statusText upstreamResponse)
                  [(''Content-Type'', content_type_or_default (res_content_type upstreamResponse)),
                   (''Access-Control-Allow-Origin'', ''*''),
                   (''Cache-Control'', ''no-cache'')] of
             Inl error \<Rightarrow> text_response (UpstreamFailedText modelId error) 502
           | Inr response \<Rightarrow> response))"

text \<open>The upstream responses that line 219 can put in a \<open>Response\<close>.\<close>

definition relayable :: "UpstreamResponse \<Rightarrow> bool" where
  "relayable up =
     (200 \<le> res_status up \<and> res_status up \<le> 599 \<and> reason_phrase (res_statusText up)
      \<and> (res_body up = None \<or> \<not> null_body_status (res_status up)))"

text \<open>
  Lines 194 to 230: the lookup and the dispatch. \<open>MODEL_PROVIDER_MAP.get\<close> on \<open>null\<close>
  throws. The second component of the result lists the requests sent upstream.
\<close>

definition dispatch ::
  "worker_state \<Rightarrow> (UpstreamRequest \<Rightarrow> js_error + UpstreamResponse) \<Rightarrow> json \<Rightarrow> json
     \<Rightarrow> (js_error + Response) \<times> UpstreamRequest list" where
  "dispatch s chat_net requestBody modelId =
     (case MODEL_PROVIDER_MAP s of
        None \<Rightarrow> (Inl TypeError, [])
      | Some t \<Rightarrow>
          (case Map_get t modelId of
             None \<Rightarrow> (Inr (text_response (ModelNotFoundText modelId) 404), [])
           | Some providerInfo \<Rightarrow>
               (Inr (relay modelId (chat_net (upstream_request providerInfo requestBody))),
                [upstream_request providerInfo requestBody])))"

text \<open>
  The handler: the response it returns (\<open>Inr\<close>) or the exception that leaves it (\<open>Inl\<close>),
  with the requests it sent upstream. \<open>chat_net\<close> is how the upstream \<open>fetch\<close> settles.
\<close>

definition handleChatCompletionRequest ::
  "worker_state \<Rightarrow> (UpstreamRequest \<Rightarrow> js_error + UpstreamResponse) \<Rightarrow> Request
     \<Rightarrow> (js_error + Response) \<times> UpstreamRequest list" where
  "handleChatCompletionRequest s chat_net request =
     (if request_method request \<noteq> ''POST'' then (Inr (text_response MethodNotAllowedText 405), [])
      else if unauthorized (headers_get request ''Authorization'')
      then (Inr (text_response UnauthorizedText 401), [])
      else (case json request of
              None \<Rightarrow> (Inl SyntaxError, [])
            | Some requestBody \<Rightarrow>
                (case get_prop requestBody ''model'' of
                   Inl e \<Rightarrow> (Inl e, [])
                 | Inr None \<Rightarrow> (Inr (text_response MissingModelText 400), [])
                 | Inr (Some modelId) \<Rightarrow>
                     (if \<not> truthy modelId then (Inr (text_response MissingModelText 400), [])
                      else dispatch s chat_net requestBody modelId))))"

section \<open>The entry point \<open>fetch\<close>\<close>

definition handleGuiRequest :: "Request \<Rightarrow> Response" where
  "handleGuiRequest request =
     \<lparr>status = 200, statusText = [],
      headers = [(''Content-Type'', ''text/html; charset=utf-8'')],
      body = ConsolePage (url_protocol request @ ''//'' @ url_hostname request) WORKER_API_KEY\<rparr>"

text \<open>
  A request handled from its arrival to its response with no other request in between.
  \<open>cfg\<close> is the registry, \<open>net\<close> and \<open>rank\<close> say how the discovery requests settle, should
  this request build the catalog, and \<open>chat_net\<close> how the upstream chat request settles.
\<close>

definition worker_fetch ::
  "registry \<Rightarrow> (string \<Rightarrow> fetch_outcome) \<Rightarrow> (string \<Rightarrow> nat)
     \<Rightarrow> (UpstreamRequest \<Rightarrow> js_error + UpstreamResponse)
     \<Rightarrow> worker_state \<Rightarrow> Request \<Rightarrow> worker_state \<times> (js_error + Response) \<times> UpstreamRequest list" where
  "worker_fetch cfg net rank chat_net s request =
     (let s' = (if MODEL_PROVIDER_MAP s = None then buildModelProviderMap cfg net rank s else s)
      in if url_pathname request = ''/v1/models'' then (s', Inr (handleModelsRequest s'), [])
         else if url_pathname request = ''/v1/chat/completions''
         then (s', handleChatCompletionRequest s' chat_net request)
         else if url_pathname request = ''/'' then (s', Inr (handleGuiRequest request), [])
         else (s', Inr (text_response RouteNotFoundText 404), []))"

section \<open>Requests that overlap\<close>

text \<open>
  An isolate runs one piece of code at a time, and an invocation of \<open>fetch\<close> gives way
  to others at each \<open>await\<close>. For the catalog the pieces are: a request arrives and runs to
  the \<open>await\<close> of line 127 when it finds the global \<open>null\<close> (line 140), or goes on to its
  handler when it does not; and a suspended call of \<open>buildModelProviderMap\<close> resumes once
  its discovery requests have settled, and assigns the global.
\<close>

datatype event =
    Arrive
  | Settle "string \<Rightarrow> fetch_outcome" "string \<Rightarrow> nat"

record isolate =
  globals :: worker_state
  suspended :: nat  \<comment> \<open>calls of \<open>buildModelProviderMap\<close> waiting at line 127\<close>
  builds :: nat     \<comment> \<open>calls of \<open>buildModelProviderMap\<close> so far\<close>

fun step :: "registry \<Rightarrow> isolate \<Rightarrow> event \<Rightarrow> isolate" where
  "step cfg i Arrive =
     (if MODEL_PROVIDER_MAP (globals i) = None
      then \<lparr>globals = build_begin cfg (globals i), suspended = Suc (suspended i),
            builds = Suc (builds i)\<rparr>
      else i)"
| "step cfg i (Settle net rank) =
     (if suspended i = 0 then i
      else \<lparr>globals = build_finish cfg net rank (globals i), suspended = suspended i - 1,
            builds = builds i\<rparr>)"

definition cold :: isolate where
  "cold = \<lparr>globals = initial_state, suspended = 0, builds = 0\<rparr>"

definition run :: "registry \<Rightarrow> event list \<Rightarrow> isolate" where
  "run cfg evs = foldl (step cfg) cold evs"

section \<open>The normalizer as the specification words it\<close>

text \<open>
  A total function on JSON values, made of typed matchers tried in the order of the
  specification: a bare array, with \<open>id\<close> or else \<open>name\<close> of each entry; an object with
  a \<open>data\<close> array, with \<open>id\<close>; an object with a \<open>models\<close> array, with \<open>name\<close>. An
  entry without a usable field is dropped and any other shape gives the empty list.
\<close>

definition own_field :: "string \<Rightarrow> json \<Rightarrow> json option" where
  "own_field k v = (case v of JObj kvs \<Rightarrow> map_of kvs k | _ \<Rightarrow> None)"

definition usable :: "json option \<Rightarrow> json option" where
  "usable v = (case v of None \<Rightarrow> None | Some x \<Rightarrow> if truthy x then Some x else None)"

definition field_value :: "string \<Rightarrow> json \<Rightarrow> json option" where
  "field_value k e = usable (own_field k e)"

definition extract_id_or_name :: "json \<Rightarrow> json option" where
  "extract_id_or_name e = (case field_value ''id'' e of None \<Rightarrow> field_value ''name'' e | Some x \<Rightarrow> Some x)"

definition array_field :: "string \<Rightarrow> json \<Rightarrow> json list option" where
  "array_field k v = (case own_field k v of Some (JArr es) \<Rightarrow> Some es | _ \<Rightarrow> None)"

definition ModelListNormalizer :: "json \<Rightarrow> json list" where
  "ModelListNormalizer v =
     (case v of
        JArr es \<Rightarrow> List.map_filter extract_id_or_name es
      | _ \<Rightarrow>
          (case array_field ''data'' v of
             Some es \<Rightarrow> List.map_filter (field_value ''id'') es
           | None \<Rightarrow>
               (case array_field ''models'' v of
                  Some es \<Rightarrow> List.map_filter (field_value ''name'') es
                | None \<Rightarrow> [])))"

text \<open>The entries that the matching shape lists.\<close>

definition listed_entries :: "json \<Rightarrow> json list" where
  "listed_entries v =
     (case v of
        JArr es \<Rightarrow> es
      | _ \<Rightarrow>
          (case array_field ''data'' v of
             Some es \<Rightarrow> es
           | None \<Rightarrow> (case array_field ''models'' v of Some es \<Rightarrow> es | None \<Rightarrow> [])))"

section \<open>Example networks and requests\<close>

text \<open>An upstream that answers 200 with \<open>{"data": [{"id": ...}, ...]}\<close>.\<close>

definition listing :: "string list \<Rightarrow> fetch_outcome" where
  "listing ids =
     Resolved \<lparr>in_status = 200,
               in_json = Some (JObj [(''data'', JArr (map (\<lambda>i. JObj [(''id'', JStr i)]) ids))])\<rparr>"

definition net_example :: "string \<Rightarrow> fetch_outcome" where
  "net_example p =
     (if p = ''gpt4free.pro'' then listing [''m1'']
      else if p = ''anondrop.net'' then Resolved \<lparr>in_status = 503, in_json = None\<rparr>
      else Rejected ''connection refused'')"

definition net_collision :: "string \<Rightarrow> fetch_outcome" where
  "net_collision p =
     (if p = ''anondrop.net'' then listing [''gpt-4o-mini'']
      else Rejected ''connection refused'')"

text \<open>
  An upstream whose bare array has a \<open>null\<close> between two models, and one whose listing
  has the id \<open>1e999\<close>, a number that parses to \<open>Infinity\<close>.
\<close>

definition null_entry_listing :: json where
  "null_entry_listing = JArr [JObj [(''id'', JStr ''a'')], JNull, JObj [(''id'', JStr ''b'')]]"

definition net_null_entry :: "string \<Rightarrow> fetch_outcome" where
  "net_null_entry p =
     (if p = ''gpt4free.pro'' then Resolved \<lparr>in_status = 200, in_json = Some null_entry_listing\<rparr>
      else Rejected ''connection refused'')"

definition net_infinity :: "string \<Rightarrow> fetch_outcome" where
  "net_infinity p =
     (if p = ''gpt4free.pro''
      then Resolved \<lparr>in_status = 200,
                     in_json = Some (JObj [(''data'', JArr [JObj [(''id'', JNum Infinity)]])])\<rparr>
      else Rejected ''connection refused'')"

definition no_delay :: "string \<Rightarrow> nat" where
  "no_delay p = 0"

text \<open>Inbound requests: the headers of a client with the key, and of a browser with more.\<close>

definition bearer_headers :: "string \<Rightarrow> string option" where
  "bearer_headers h = (if h = ''Authorization'' then Some ''Bearer 1'' else None)"

definition browser_headers :: "string \<Rightarrow> string option" where
  "browser_headers h =
     (if h = ''Authorization'' then Some ''Bearer 1''
      else if h = ''Cookie'' then Some ''session=42''
      else if h = ''X-Forwarded-For'' then Some ''203.0.113.7''
      else None)"

definition chat_request :: "(string \<Rightarrow> string option) \<Rightarrow> json option \<Rightarrow> Request" where
  "chat_request hs b =
     \<lparr>request_method = ''POST'', url_protocol = ''https:'', url_hostname = ''gateway.example'',
      url_pathname = ''/v1/chat/completions'', headers_get = hs, json = b\<rparr>"

definition models_request :: Request where
  "models_request =
     \<lparr>request_method = ''GET'', url_protocol = ''https:'', url_hostname = ''gateway.example'',
      url_pathname = ''/v1/models'', headers_get = bearer_headers, json = None\<rparr>"

definition chat_body :: "string \<Rightarrow> json" where
  "chat_body m =
     JObj [(''model'', JStr m),
           (''messages'', JArr [JObj [(''role'', JStr ''user''), (''content'', JStr ''hello'')]]),
           (''stream'', JBool True)]"

text \<open>An upstream that answers the chat request, and one that cannot be reached.\<close>

text \<open>The parsed body of the request text \<open>{"model": "m1", "big": 1e309}\<close>.\<close>

definition big_body :: json where
  "big_body = JObj [(''model'', JStr ''m1''), (''big'', JNum Infinity)]"

definition upstream_up :: "UpstreamRequest \<Rightarrow> js_error + UpstreamResponse" where
  "upstream_up u =
     Inr \<lparr>res_status = 200, res_statusText = ''OK'', res_content_type = None,
          res_body = Some [''data: [DONE]'']\<rparr>"

definition upstream_999 :: "UpstreamRequest \<Rightarrow> js_error + UpstreamResponse" where
  "upstream_999 u =
     Inr \<lparr>res_status = 999, res_statusText = ''Request denied'', res_content_type = Some ''text/html'',
          res_body = Some [''<html></html>'']\<rparr>"

definition upstream_down :: "UpstreamRequest \<Rightarrow> js_error + UpstreamResponse" where
  "upstream_down u = Inl (NetworkError ''connection refused'')"

definition net_down :: "string \<Rightarrow> fetch_outcome" where
  "net_down p = Rejected ''connection refused''"

text \<open>The isolate after its first build, on \<open>net_example\<close>.\<close>

definition ready_state :: worker_state where
  "ready_state = buildModelProviderMap PROVIDER_CONFIG net_example no_delay initial_state"

section \<open>The model-list parsing against the normalizer\<close>

lemma array_map_total:
  "\<forall>x\<in>set xs. f x = Inr (g x) \<Longrightarrow> array_map f xs = Inr (map g xs)"
  by (induction xs) auto

lemma array_map_throws:
  "x \<in> set xs \<Longrightarrow> f x = Inl e \<Longrightarrow> \<forall>y\<in>set xs. f y = Inl e \<or> (\<exists>z. f y = Inr z) \<Longrightarrow> array_map f xs = Inl e"
proof (induction xs)
  case Nil then show ?case by simp
next
  case (Cons a xs)
  show ?case
  proof (cases "f a")
    case (Inl e') with Cons.prems show ?thesis by auto
  next
    case (Inr z)
    with Cons.prems have "x \<in> set xs" by auto
    with Cons have "array_map f xs = Inl e" by auto
    with Inr show ?thesis by simp
  qed
qed

lemma filter_Boolean_map: "filter_Boolean (map g xs) = List.map_filter (usable \<circ> g) xs"
  by (induction xs) (auto simp: List.map_filter_simps usable_def split: option.splits)

lemma get_prop_cases: "get_prop m k = (if m = JNull then Inl TypeError else Inr (own_field k m))"
  by (cases m) (auto simp: own_field_def)

lemma id_or_name_cases:
  "id_or_name m = (if m = JNull then Inl TypeError else Inr (if Boolean (own_field ''id'' m) then own_field ''id'' m else own_field ''name'' m))"
  by (simp add: id_or_name_def get_prop_cases)

lemma usable_id_or_name:
  "usable (if Boolean (own_field ''id'' m) then own_field ''id'' m else own_field ''name'' m) = extract_id_or_name m"
  by (auto simp: extract_id_or_name_def field_value_def usable_def split: option.splits)

lemma map_filter_Boolean_get_prop:
  "map_filter_Boolean (\<lambda>m. get_prop m k) es =
     (if JNull \<in> set es then Inl TypeError else Inr (List.map_filter (field_value k) es))"
proof (cases "JNull \<in> set es")
  case True
  then have "array_map (\<lambda>m. get_prop m k) es = Inl TypeError"
    by (rule array_map_throws) (auto simp: get_prop_cases)
  with True show ?thesis by (simp add: map_filter_Boolean_def)
next
  case False
  then have "array_map (\<lambda>m. get_prop m k) es = Inr (map (own_field k) es)"
    by (intro array_map_total) (auto simp: get_prop_cases)
  moreover have "usable \<circ> own_field k = field_value k" by (auto simp: field_value_def)
  ultimately show ?thesis using False by (simp add: map_filter_Boolean_def filter_Boolean_map)
qed

lemma map_filter_Boolean_id_or_name:
  "map_filter_Boolean id_or_name es =
     (if JNull \<in> set es then Inl TypeError else Inr (List.map_filter extract_id_or_name es))"
proof (cases "JNull \<in> set es")
  case True
  then have "array_map id_or_name es = Inl TypeError"
    by (rule array_map_throws) (auto simp: id_or_name_cases)
  with True show ?thesis by (simp add: map_filter_Boolean_def)
next
  case False
  let ?g = "\<lambda>m. if Boolean (own_field ''id'' m) then own_field ''id'' m else own_field ''name'' m"
  from False have "array_map id_or_name es = Inr (map ?g es)"
    by (intro array_map_total) (auto simp: id_or_name_cases)
  moreover have "usable \<circ> ?g = extract_id_or_name" using usable_id_or_name by (auto simp: fun_eq_iff)
  ultimately show ?thesis using False by (simp add: map_filter_Boolean_def filter_Boolean_map)
qed

lemma Boolean_isArray: "(Boolean d \<and> isArray d) = (\<exists>es. d = Some (JArr es))"
  by (cases d rule: isArray.cases) auto

text \<open>
  The parsing code against the normalizer: on every JSON value it gives what the normalizer
  gives, except that it throws a TypeError when the value is \<open>null\<close> or when the array
  that the matching shape lists has a \<open>null\<close> entry.
\<close>

lemma parseModelList_refines:
  "parseModelList v =
     (if v = JNull \<or> JNull \<in> set (listed_entries v) then Inl TypeError
      else Inr (ModelListNormalizer v))"
proof (cases v)
  case JNull then show ?thesis by (simp add: parseModelList_def)
next
  case (JArr es)
  then show ?thesis
    by (simp add: parseModelList_def map_filter_Boolean_id_or_name listed_entries_def ModelListNormalizer_def)
next
  case (JObj kvs)
  then show ?thesis
    by (auto simp: parseModelList_def map_filter_Boolean_get_prop listed_entries_def
        ModelListNormalizer_def array_field_def own_field_def Boolean_isArray
        split: option.splits json.splits)
qed (simp_all add: parseModelList_def listed_entries_def ModelListNormalizer_def array_field_def own_field_def)


text \<open>The examples of the specification that the parsing code meets.\<close>

lemma parseModelList_examples:
  "parseModelList (JArr [JObj [(''id'', JStr ''a'')], JObj [(''name'', JStr ''b'')]]) = Inr [JStr ''a'', JStr ''b'']
   \<and> parseModelList (JObj [(''data'', JArr [JObj [(''id'', JStr ''c'')]])]) = Inr [JStr ''c'']
   \<and> parseModelList (JObj [(''models'', JArr [JObj [(''name'', JStr ''d'')]])]) = Inr [JStr ''d'']
   \<and> parseModelList (JObj []) = Inr []"
  using parseModelList_refines [of "JArr [JObj [(''id'', JStr ''a'')], JObj [(''name'', JStr ''b'')]]"]
    parseModelList_refines [of "JObj [(''data'', JArr [JObj [(''id'', JStr ''c'')]])]"]
    parseModelList_refines [of "JObj [(''models'', JArr [JObj [(''name'', JStr ''d'')]])]"]
    parseModelList_refines [of "JObj []"]
  by (simp add: listed_entries_def ModelListNormalizer_def array_field_def own_field_def
      field_value_def extract_id_or_name_def usable_def List.map_filter_simps)

section \<open>The routing table as a map\<close>

lemma Map_set_keys: "fst ` set (Map_set k v t) = insert k (fst ` set t)"
proof (induction t)
  case Nil show ?case by simp
next
  case (Cons a t)
  obtain k' v' where a: "a = (k', v')" by (cases a)
  show ?case
  proof (cases "sameValueZero k' k")
    case True
    then have "k' = k" by (simp add: sameValueZero_def)
    with True a show ?thesis by simp
  next
    case False
    with a Cons.IH show ?thesis by (simp add: insert_commute)
  qed
qed

lemma Map_set_values: "(k', v') \<in> set (Map_set k v t) \<Longrightarrow> v' = v \<or> (k', v') \<in> set t"
  by (induction t) (auto split: if_splits)

lemma Map_get_set: "Map_get (Map_set k v t) k' = (if sameValueZero k k' then Some v else Map_get t k')"
  by (induction t) (auto simp: sameValueZero_def)

lemma register_keys: "fst ` set (register p c ids t) = set ids \<union> fst ` set t"
  unfolding register_def by (induction ids arbitrary: t) (auto simp: Map_set_keys)

lemma register_values:
  "(k, e) \<in> set (register p c ids t) \<Longrightarrow> e = entry_of p c \<and> ids \<noteq> [] \<or> (k, e) \<in> set t"
  unfolding register_def
proof (induction ids arbitrary: t)
  case Nil then show ?case by simp
next
  case (Cons a ids)
  from Cons.prems have "(k, e) \<in> set (foldl (\<lambda>t' modelId. Map_set modelId (entry_of p c) t') (Map_set a (entry_of p c) t) ids)"
    by simp
  from Cons.IH[OF this] show ?case by (auto dest: Map_set_values)
qed

lemma Map_get_register:
  "Map_get (register p c ids t) k = (if primitive k \<and> k \<in> set ids then Some (entry_of p c) else Map_get t k)"
  unfolding register_def
  by (induction ids arbitrary: t) (auto simp: Map_get_set sameValueZero_def)

lemma Map_get_keys: "primitive k \<Longrightarrow> k \<in> fst ` set t \<Longrightarrow> Map_get t k \<noteq> None"
proof (induction t)
  case Nil then show ?case by simp
next
  case (Cons a t)
  obtain k' v' where a: "a = (k', v')" by (cases a)
  show ?case
  proof (cases "k' = k")
    case True
    with a Cons.prems show ?thesis by (simp add: sameValueZero_def)
  next
    case False
    with a Cons.prems have "k \<in> fst ` set t" by auto
    with Cons a False show ?thesis by (simp add: sameValueZero_def)
  qed
qed

lemma Map_get_in: "Map_get t k = Some e \<Longrightarrow> (k, e) \<in> set t"
  by (induction t) (auto simp: sameValueZero_def split: if_splits)



lemma provider_task_keys:
  "fst ` set (foldl (provider_task net) t ps) = (\<Union>pc\<in>set ps. set (task_models net pc)) \<union> fst ` set t"
  by (induction ps arbitrary: t) (auto simp: provider_task_def register_keys)

lemma provider_task_entries:
  "(k, e) \<in> set (foldl (provider_task net) t ps) \<Longrightarrow>
     (k, e) \<in> set t \<or> (\<exists>pc\<in>set ps. e = entry_of (fst pc) (snd pc) \<and> task_models net pc \<noteq> [])"
proof (induction ps arbitrary: t)
  case Nil then show ?case by simp
next
  case (Cons a ps)
  from Cons.prems have "(k, e) \<in> set (foldl (provider_task net) (provider_task net t a) ps)" by simp
  from Cons.IH[OF this] show ?case
    by (auto simp: provider_task_def dest: register_values)
qed

lemma provider_task_last:
  "Map_get (foldl (provider_task net) t (ps @ [pc])) k =
     (if primitive k \<and> k \<in> set (task_models net pc) then Some (entry_of (fst pc) (snd pc))
      else Map_get (foldl (provider_task net) t ps) k)"
  by (simp add: provider_task_def Map_get_register)

lemma provider_task_not_overwritten:
  "primitive k \<Longrightarrow> k \<in> set (task_models net pc) \<Longrightarrow> \<forall>q\<in>set qs. k \<notin> set (task_models net q) \<Longrightarrow>
     Map_get (foldl (provider_task net) t (ps @ pc # qs)) k = Some (entry_of (fst pc) (snd pc))"
proof (induction qs rule: rev_induct)
  case Nil
  then show ?case using provider_task_last[of net t ps pc k] by simp
next
  case (snoc q qs)
  have "Map_get (foldl (provider_task net) t ((ps @ pc # qs) @ [q])) k
        = Map_get (foldl (provider_task net) t (ps @ pc # qs)) k"
    using snoc.prems by (subst provider_task_last) simp
  with snoc show ?case by simp
qed

text \<open>The last task that registers a key owns it.\<close>

lemma provider_task_last_registrant:
  "primitive k \<Longrightarrow>
   Map_get (foldl (provider_task net) t ps) k =
     (if filter (\<lambda>q. k \<in> set (task_models net q)) ps = [] then Map_get t k
      else Some (entry_of (fst (last (filter (\<lambda>q. k \<in> set (task_models net q)) ps)))
                          (snd (last (filter (\<lambda>q. k \<in> set (task_models net q)) ps)))))"
proof (induction ps rule: rev_induct)
  case Nil then show ?case by simp
next
  case (snoc q ps)
  show ?case
    using snoc.IH[OF snoc.prems] snoc.prems
    by (subst provider_task_last) simp
qed


lemma task_order_set: "set (task_order rank cfg) = set cfg"
  by (auto simp: task_order_def)


lemma build_map_keys: "fst ` set (build_map cfg net rank) = (\<Union>pc\<in>set cfg. set (task_models net pc))"
  by (simp add: build_map_def provider_task_keys task_order_set)

lemma build_map_entries:
  "(k, e) \<in> set (build_map cfg net rank) \<Longrightarrow>
     \<exists>pc\<in>set cfg. e = entry_of (fst pc) (snd pc) \<and> task_models net pc \<noteq> []"
  using provider_task_entries[of k e net "[]" "task_order rank cfg"]
  by (simp add: build_map_def task_order_set)


section \<open>The catalog build\<close>

lemma fetch_failed_discover: "fetch_failed out \<Longrightarrow> isl (discover out)"
  by (auto simp: fetch_failed_def discover_def split: fetch_outcome.splits)

lemma failed_task_models: "is_dynamic (snd pc) \<Longrightarrow> fetch_failed (net (fst pc)) \<Longrightarrow> task_models net pc = []"
  using fetch_failed_discover[of "net (fst pc)"]
  by (cases pc) (auto simp: task_models_def is_static_def is_dynamic_def split: sum.splits)

lemmas eval_build = build_map_def task_order_def provider_task_def task_models_def register_def
      discover_def parseModelList_def map_filter_Boolean_def PROVIDER_CONFIG_def net_example_def net_collision_def
      listing_def no_delay_def is_static_def is_dynamic_def truthy_models_def truthy_modelsPath_def
      ok_def entry_of_def sameValueZero_def fetch_failed_def



lemma task_order_static_split:
  "\<not> is_dynamic c \<Longrightarrow>
   task_order rank (xs @ (p, c) # ys) =
     filter (\<lambda>(p, c). \<not> is_dynamic c) xs @ (p, c) #
       (filter (\<lambda>(p, c). \<not> is_dynamic c) ys
        @ sort_key (\<lambda>pc. rank (fst pc)) (filter (\<lambda>(p, c). is_dynamic c) (xs @ ys)))"
  by (simp add: task_order_def)

text \<open>
  C8 (amended). For every provider of the registry that declares a static \<open>models\<close> list
  and no \<open>modelsPath\<close>, every id of the list is a key of the built table. The tasks that
  register after the provider's are those of the providers that are not dynamic and stand
  later in the registry, then those of all dynamic providers in their order of completion.
  The id is mapped to the provider when none of them registers it, and otherwise to the
  last of them that does: the later registration wins, so that of a dynamic provider wins
  over the static one. The build sends the same discovery requests as it does without this
  provider: none is sent for it.
\<close>

theorem static_models_registered:
  assumes "is_static c" and "models c = Some ms" and "m \<in> set ms"
  shows "Map_get (build_map (xs @ (p, c) # ys) net rank) (JStr m) =
           Some (if filter (\<lambda>q. JStr m \<in> set (task_models net q))
                      (filter (\<lambda>(p, c). \<not> is_dynamic c) ys
                       @ sort_key (\<lambda>pc. rank (fst pc)) (filter (\<lambda>(p, c). is_dynamic c) (xs @ ys))) = []
                 then entry_of p c
                 else entry_of
                   (fst (last (filter (\<lambda>q. JStr m \<in> set (task_models net q))
                      (filter (\<lambda>(p, c). \<not> is_dynamic c) ys
                       @ sort_key (\<lambda>pc. rank (fst pc)) (filter (\<lambda>(p, c). is_dynamic c) (xs @ ys))))))
                   (snd (last (filter (\<lambda>q. JStr m \<in> set (task_models net q))
                      (filter (\<lambda>(p, c). \<not> is_dynamic c) ys
                       @ sort_key (\<lambda>pc. rank (fst pc)) (filter (\<lambda>(p, c). is_dynamic c) (xs @ ys)))))))
    \<and> (\<exists>e. Map_get (build_map (xs @ (p, c) # ys) net rank) (JStr m) = Some e)
    \<and> ((\<forall>q\<in>set ys. JStr m \<notin> set (task_models net q))
        \<and> (\<forall>q\<in>set xs. is_dynamic (snd q) \<longrightarrow> JStr m \<notin> set (task_models net q))
       \<longrightarrow> Map_get (build_map (xs @ (p, c) # ys) net rank) (JStr m) = Some (entry_of p c))
    \<and> (\<forall>q\<in>set (xs @ ys). is_dynamic (snd q) \<and> JStr m \<in> set (task_models net q) \<longrightarrow>
          (\<exists>q'\<in>set (xs @ ys). is_dynamic (snd q') \<and> JStr m \<in> set (task_models net q')
             \<and> Map_get (build_map (xs @ (p, c) # ys) net rank) (JStr m) = Some (entry_of (fst q') (snd q'))))
    \<and> discovery_requests (xs @ (p, c) # ys) = discovery_requests (xs @ ys)"
proof -
  define reg where "reg = (\<lambda>q. JStr m \<in> set (task_models net q))"
  define dyn where "dyn = sort_key (\<lambda>pc. rank (fst pc)) (filter (\<lambda>(p, c). is_dynamic c) (xs @ ys))"
  define later where "later = filter (\<lambda>(p, c). \<not> is_dynamic c) ys @ dyn"
  define t where "t = build_map (xs @ (p, c) # ys) net rank"
  from assms have nd: "\<not> is_dynamic c" by (simp add: is_static_def is_dynamic_def)
  from assms have reg: "reg (p, c)" by (simp add: task_models_def reg_def)
  have order: "task_order rank (xs @ (p, c) # ys) = (filter (\<lambda>(p, c). \<not> is_dynamic c) xs @ [(p, c)]) @ later"
    using nd by (simp add: task_order_static_split later_def dyn_def)
  have "Map_get t (JStr m) =
      Some (entry_of (fst (last (filter reg (task_order rank (xs @ (p, c) # ys)))))
                     (snd (last (filter reg (task_order rank (xs @ (p, c) # ys))))))"
    using reg unfolding t_def build_map_def reg_def
    by (subst provider_task_last_registrant) (auto simp: order filter_empty_conv)
  also have "filter reg (task_order rank (xs @ (p, c) # ys))
      = (filter reg (filter (\<lambda>(p, c). \<not> is_dynamic c) xs) @ [(p, c)]) @ filter reg later"
    using reg by (simp add: order)
  also have "last \<dots> = (if filter reg later = [] then (p, c) else last (filter reg later))"
    by (simp add: last_append)
  finally have main: "Map_get t (JStr m) =
      Some (if filter reg later = [] then entry_of p c
            else entry_of (fst (last (filter reg later))) (snd (last (filter reg later))))"
    by (simp split: if_splits)
  have none: "filter reg later = []"
    if "(\<forall>q\<in>set ys. \<not> reg q) \<and> (\<forall>q\<in>set xs. is_dynamic (snd q) \<longrightarrow> \<not> reg q)"
    using that by (auto simp: filter_empty_conv later_def dyn_def)
  have dyn_wins: "\<exists>q'\<in>set (xs @ ys). is_dynamic (snd q') \<and> reg q'
             \<and> Map_get t (JStr m) = Some (entry_of (fst q') (snd q'))"
    if q: "q \<in> set (xs @ ys)" "is_dynamic (snd q)" "reg q" for q
  proof -
    from q have "q \<in> set dyn" unfolding dyn_def by (cases q) auto
    with q have ne: "filter reg dyn \<noteq> []" by (auto simp: filter_empty_conv)
    then have l: "last (filter reg later) = last (filter reg dyn)" by (simp add: later_def)
    from ne have "last (filter reg dyn) \<in> set (filter reg dyn)" by (rule last_in_set)
    then have in_dyn: "last (filter reg dyn) \<in> set dyn" and r: "reg (last (filter reg dyn))" by auto
    from in_dyn have "last (filter reg dyn) \<in> set (xs @ ys)" "is_dynamic (snd (last (filter reg dyn)))"
      unfolding dyn_def by auto
    moreover from ne have "filter reg later \<noteq> []" by (simp add: later_def)
    ultimately show ?thesis using main l r by (intro bexI[of _ "last (filter reg dyn)"]) simp_all
  qed
  have req: "discovery_requests (xs @ (p, c) # ys) = discovery_requests (xs @ ys)"
    using nd by (simp add: discovery_requests_def)
  show ?thesis
  proof (intro conjI)
    show "Map_get (build_map (xs @ (p, c) # ys) net rank) (JStr m) =
           Some (if filter (\<lambda>q. JStr m \<in> set (task_models net q))
                      (filter (\<lambda>(p, c). \<not> is_dynamic c) ys
                       @ sort_key (\<lambda>pc. rank (fst pc)) (filter (\<lambda>(p, c). is_dynamic c) (xs @ ys))) = []
                 then entry_of p c
                 else entry_of
                   (fst (last (filter (\<lambda>q. JStr m \<in> set (task_models net q))
                      (filter (\<lambda>(p, c). \<not> is_dynamic c) ys
                       @ sort_key (\<lambda>pc. rank (fst pc)) (filter (\<lambda>(p, c). is_dynamic c) (xs @ ys))))))
                   (snd (last (filter (\<lambda>q. JStr m \<in> set (task_models net q))
                      (filter (\<lambda>(p, c). \<not> is_dynamic c) ys
                       @ sort_key (\<lambda>pc. rank (fst pc)) (filter (\<lambda>(p, c). is_dynamic c) (xs @ ys)))))))"
      using main unfolding t_def later_def dyn_def reg_def .
    show "\<exists>e. Map_get (build_map (xs @ (p, c) # ys) net rank) (JStr m) = Some e"
      using main unfolding t_def by blast
    show "(\<forall>q\<in>set ys. JStr m \<notin> set (task_models net q))
        \<and> (\<forall>q\<in>set xs. is_dynamic (snd q) \<longrightarrow> JStr m \<notin> set (task_models net q))
       \<longrightarrow> Map_get (build_map (xs @ (p, c) # ys) net rank) (JStr m) = Some (entry_of p c)"
      using main none unfolding t_def reg_def by simp
    show "\<forall>q\<in>set (xs @ ys). is_dynamic (snd q) \<and> JStr m \<in> set (task_models net q) \<longrightarrow>
          (\<exists>q'\<in>set (xs @ ys). is_dynamic (snd q') \<and> JStr m \<in> set (task_models net q')
             \<and> Map_get (build_map (xs @ (p, c) # ys) net rank) (JStr m) = Some (entry_of (fst q') (snd q')))"
      using dyn_wins unfolding t_def reg_def by blast
    show "discovery_requests (xs @ (p, c) # ys) = discovery_requests (xs @ ys)" by (rule req)
  qed
qed

lemma PROVIDER_CONFIG_split:
  "(''api.airforce'',
        \<lparr>name = ''Airforce API'', upstreamHost = ''api.airforce'',
         models = Some [''gpt-5-mini'', ''gpt-4o-mini''], modelsPath = None,
         chatPath = ''/v1/chat/completions''\<rparr>) # tl PROVIDER_CONFIG = PROVIDER_CONFIG"
  by (simp add: PROVIDER_CONFIG_def)

text \<open>
  On the registry of the source: \<open>gpt-5-mini\<close> stays with \<open>api.airforce\<close> when no
  listing has it, and \<open>gpt-4o-mini\<close> goes to \<open>anondrop.net\<close> when its listing has it.
\<close>

theorem static_models_registered_witness:
  "Map_get (build_map PROVIDER_CONFIG net_example no_delay) (JStr ''gpt-5-mini'')
     = Some \<lparr>providerId = ''api.airforce'', upstreamHost = ''api.airforce'', chatPath = ''/v1/chat/completions''\<rparr>
   \<and> Map_get (build_map PROVIDER_CONFIG net_collision no_delay) (JStr ''gpt-4o-mini'')
     = Some \<lparr>providerId = ''anondrop.net'', upstreamHost = ''anondrop.net'', chatPath = ''/v1/chat/completions''\<rparr>
   \<and> discovery_requests PROVIDER_CONFIG = discovery_requests (tl PROVIDER_CONFIG)"
proof -
  let ?c = "\<lparr>name = ''Airforce API'', upstreamHost = ''api.airforce'',
         models = Some [''gpt-5-mini'', ''gpt-4o-mini''], modelsPath = None,
         chatPath = ''/v1/chat/completions''\<rparr>"
  have h1: "is_static ?c" by (simp add: is_static_def truthy_models_def truthy_modelsPath_def)
  have h2: "models ?c = Some [''gpt-5-mini'', ''gpt-4o-mini'']" by simp
  have h3: "''gpt-5-mini'' \<in> set [''gpt-5-mini'', ''gpt-4o-mini'']" by simp
  have h3': "''gpt-4o-mini'' \<in> set [''gpt-5-mini'', ''gpt-4o-mini'']" by simp
  have a: "Map_get (build_map PROVIDER_CONFIG net_example no_delay) (JStr ''gpt-5-mini'')
     = Some \<lparr>providerId = ''api.airforce'', upstreamHost = ''api.airforce'', chatPath = ''/v1/chat/completions''\<rparr>
     \<and> discovery_requests PROVIDER_CONFIG = discovery_requests (tl PROVIDER_CONFIG)"
    using static_models_registered [OF h1 h2 h3, of "[]" "''api.airforce''" "tl PROVIDER_CONFIG" net_example no_delay]
    by (simp add: PROVIDER_CONFIG_split) (simp add: eval_build)
  have b: "Map_get (build_map PROVIDER_CONFIG net_collision no_delay) (JStr ''gpt-4o-mini'')
     = Some \<lparr>providerId = ''anondrop.net'', upstreamHost = ''anondrop.net'', chatPath = ''/v1/chat/completions''\<rparr>"
    using static_models_registered [OF h1 h2 h3', of "[]" "''api.airforce''" "tl PROVIDER_CONFIG" net_collision no_delay]
    by (simp add: PROVIDER_CONFIG_split) (simp add: eval_build)
  from a b show ?thesis by simp
qed

text \<open>
  C8 as stated fails: \<open>api.airforce\<close> lists \<open>gpt-4o-mini\<close> statically, and when the
  listing of \<open>anondrop.net\<close> has the same id the table maps it to \<open>anondrop.net\<close>
  (\<open>map.set\<close> at line 119 overwrites the entry of line 91).
\<close>

theorem static_model_overwritten_counterexample:
  "map_of PROVIDER_CONFIG ''api.airforce''
     = Some \<lparr>name = ''Airforce API'', upstreamHost = ''api.airforce'',
             models = Some [''gpt-5-mini'', ''gpt-4o-mini''], modelsPath = None,
             chatPath = ''/v1/chat/completions''\<rparr>
   \<and> Map_get (build_map PROVIDER_CONFIG net_collision no_delay) (JStr ''gpt-4o-mini'')
     = Some \<lparr>providerId = ''anondrop.net'', upstreamHost = ''anondrop.net'', chatPath = ''/v1/chat/completions''\<rparr>"
  by (simp add: eval_build)

section \<open>A listing with a \<open>null\<close>\<close>

text \<open>
  C4 (the code at the failing inputs). On the listing \<open>null\<close> the parsing code throws
  where the normalizer gives the empty list; the \<open>catch\<close> of line 122 takes the error,
  and the provider registers nothing. On a bare array with a \<open>null\<close> between two models
  it throws as well (line 111 reads \<open>m.id\<close> of \<open>null\<close>), where the normalizer drops the
  entry and gives the two ids: the build loses the whole listing of that provider.
\<close>

theorem listing_null_entry_throws:
  "parseModelList JNull = Inl TypeError
   \<and> ModelListNormalizer JNull = []
   \<and> parseModelList null_entry_listing = Inl TypeError
   \<and> ModelListNormalizer null_entry_listing = [JStr ''a'', JStr ''b'']
   \<and> build_map PROVIDER_CONFIG net_null_entry no_delay =
       [(JStr ''gpt-5-mini'', \<lparr>providerId = ''api.airforce'', upstreamHost = ''api.airforce'', chatPath = ''/v1/chat/completions''\<rparr>),
        (JStr ''gpt-4o-mini'', \<lparr>providerId = ''api.airforce'', upstreamHost = ''api.airforce'', chatPath = ''/v1/chat/completions''\<rparr>)]"
proof (intro conjI)
  show "parseModelList JNull = Inl TypeError" by (simp add: parseModelList_def)
  show "ModelListNormalizer JNull = []"
    by (simp add: ModelListNormalizer_def array_field_def own_field_def)
  show "parseModelList null_entry_listing = Inl TypeError"
    by (simp add: parseModelList_def null_entry_listing_def map_filter_Boolean_def id_or_name_def)
  show "ModelListNormalizer null_entry_listing = [JStr ''a'', JStr ''b'']"
    by (simp add: ModelListNormalizer_def null_entry_listing_def extract_id_or_name_def
        field_value_def own_field_def usable_def List.map_filter_simps)
  show "build_map PROVIDER_CONFIG net_null_entry no_delay =
       [(JStr ''gpt-5-mini'', \<lparr>providerId = ''api.airforce'', upstreamHost = ''api.airforce'', chatPath = ''/v1/chat/completions''\<rparr>),
        (JStr ''gpt-4o-mini'', \<lparr>providerId = ''api.airforce'', upstreamHost = ''api.airforce'', chatPath = ''/v1/chat/completions''\<rparr>)]"
    by (simp add: eval_build net_null_entry_def null_entry_listing_def id_or_name_def)
qed

section \<open>The table that the handlers read\<close>



lemma task_models_nonempty:
  "task_models net (p, c) \<noteq> [] \<Longrightarrow> is_dynamic c \<Longrightarrow> \<exists>ids. discover (net p) = Inr ids"
  by (auto simp: task_models_def is_static_def is_dynamic_def split: sum.splits if_splits)

lemma build_map_entry_source:
  assumes "distinct (map fst cfg)" and "(k, e) \<in> set (build_map cfg net rank)"
  shows "\<exists>c. map_of cfg (providerId e) = Some c
           \<and> upstreamHost e = ProviderConfig.upstreamHost c \<and> chatPath e = ProviderConfig.chatPath c
           \<and> (is_dynamic c \<longrightarrow> (\<exists>ids. discover (net (providerId e)) = Inr ids))"
proof -
  from build_map_entries[OF assms(2)] obtain p c
    where pc: "(p, c) \<in> set cfg" and e: "e = entry_of p c" and ne: "task_models net (p, c) \<noteq> []"
    by auto
  from assms(1) pc have "map_of cfg p = Some c" by simp
  with e ne show ?thesis by (auto simp: entry_of_def dest: task_models_nonempty)
qed



lemma build_example:
  "build_map PROVIDER_CONFIG net_example no_delay =
    [(JStr ''gpt-5-mini'', \<lparr>providerId = ''api.airforce'', upstreamHost = ''api.airforce'', chatPath = ''/v1/chat/completions''\<rparr>),
     (JStr ''gpt-4o-mini'', \<lparr>providerId = ''api.airforce'', upstreamHost = ''api.airforce'', chatPath = ''/v1/chat/completions''\<rparr>),
     (JStr ''m1'', \<lparr>providerId = ''gpt4free.pro'', upstreamHost = ''gpt4free.pro'', chatPath = ''/v1/chat/completions''\<rparr>)]"
  by (simp add: eval_build)


section \<open>The catalog endpoint\<close>

text \<open>\<open>JSON.stringify\<close> changes only numbers that are not finite.\<close>

lemma JSON_stringify_finite: "finite_json v \<Longrightarrow> JSON_stringify v = v"
proof (induction v)
  case (JArr xs)
  then show ?case by (simp add: list_all_iff map_idI)
next
  case (JObj kvs)
  have "map (map_prod id JSON_stringify) kvs = kvs"
  proof (rule map_idI)
    fix kv assume kv: "kv \<in> set kvs"
    obtain k v where [simp]: "kv = (k, v)" by (cases kv)
    from kv JObj.prems have "finite_json v" by (force simp: list_all_iff)
    moreover from kv have "v \<in> Basic_BNFs.snds kv" by simp
    ultimately have "JSON_stringify v = v" using JObj.IH kv by blast
    then show "map_prod id JSON_stringify kv = kv" by simp
  qed
  then show ?case by simp
qed (auto split: number.splits)

lemma build_map_owner: "(k, e) \<in> set (build_map cfg net rank) \<Longrightarrow> providerId e \<in> fst ` set cfg"
  by (force dest!: build_map_entries simp: entry_of_def)

lemma JSON_stringify_model_object:
  "JSON_stringify (model_object kv) =
     JObj [(''id'', JSON_stringify (fst kv)), (''object'', JStr ''model''),
           (''owned_by'', JStr (providerId (snd kv)))]"
  by (cases kv) (simp add: model_object_def)

text \<open>
  C5 (amended). While the global is \<open>null\<close> the catalog handler answers 503. Once it
  holds a built table the handler answers 200 with the document
  \<open>{object: "list", data: [...]}\<close>: \<open>data\<close> has as many entries as the table, and the
  entry at each position has the id of the table's entry there as \<open>JSON.stringify\<close>
  writes it (the id itself when its numbers are finite, as in every string id),
  \<open>object: "model"\<close>, and as \<open>owned_by\<close> the \<open>providerId\<close> of that entry, which is a
  provider id of the registry.
\<close>

theorem models_catalog:
  "(MODEL_PROVIDER_MAP s = None \<longrightarrow> handleModelsRequest s = text_response CatalogNotReadyText 503)
   \<and> (MODEL_PROVIDER_MAP s = Some (build_map cfg net rank) \<longrightarrow>
        (\<exists>ds. handleModelsRequest s =
                \<lparr>status = 200, statusText = [], headers = [(''Content-Type'', ''application/json'')],
                 body = JsonText (JObj [(''object'', JStr ''list''), (''data'', JArr ds)])\<rparr>
             \<and> length ds = Map_size (build_map cfg net rank)
             \<and> (\<forall>i<length ds.
                   ds ! i = JObj [(''id'', JSON_stringify (fst (build_map cfg net rank ! i))),
                                 (''object'', JStr ''model''),
                                 (''owned_by'', JStr (providerId (snd (build_map cfg net rank ! i))))]
                   \<and> (finite_json (fst (build_map cfg net rank ! i)) \<longrightarrow>
                        ds ! i = JObj [(''id'', fst (build_map cfg net rank ! i)),
                                 (''object'', JStr ''model''),
                                 (''owned_by'', JStr (providerId (snd (build_map cfg net rank ! i))))])
                   \<and> providerId (snd (build_map cfg net rank ! i)) \<in> fst ` set cfg)))"
proof (intro conjI impI)
  assume "MODEL_PROVIDER_MAP s = None"
  then show "handleModelsRequest s = text_response CatalogNotReadyText 503"
    by (simp add: handleModelsRequest_def)
next
  let ?t = "build_map cfg net rank"
  let ?ds = "map (\<lambda>kv. JSON_stringify (model_object kv)) ?t"
  assume built: "MODEL_PROVIDER_MAP s = Some ?t"
  have owner: "providerId (snd (?t ! i)) \<in> fst ` set cfg" if "i < length ?t" for i
  proof -
    from that have "(fst (?t ! i), snd (?t ! i)) \<in> set ?t" by simp
    then show ?thesis by (rule build_map_owner)
  qed
  have "handleModelsRequest s =
          \<lparr>status = 200, statusText = [], headers = [(''Content-Type'', ''application/json'')],
           body = JsonText (JObj [(''object'', JStr ''list''), (''data'', JArr ?ds)])\<rparr>"
    using built by (simp add: handleModelsRequest_def comp_def)
  moreover have "length ?ds = Map_size ?t" by (simp add: Map_size_def)
  moreover have "\<forall>i<length ?ds.
       ?ds ! i = JObj [(''id'', JSON_stringify (fst (?t ! i))), (''object'', JStr ''model''),
                                 (''owned_by'', JStr (providerId (snd (?t ! i))))]
       \<and> (finite_json (fst (?t ! i)) \<longrightarrow>
             ?ds ! i = JObj [(''id'', fst (?t ! i)), (''object'', JStr ''model''),
                                 (''owned_by'', JStr (providerId (snd (?t ! i))))])
       \<and> providerId (snd (?t ! i)) \<in> fst ` set cfg"
    using owner by (simp add: JSON_stringify_model_object JSON_stringify_finite)
  ultimately show "\<exists>ds. handleModelsRequest s =
                \<lparr>status = 200, statusText = [], headers = [(''Content-Type'', ''application/json'')],
                 body = JsonText (JObj [(''object'', JStr ''list''), (''data'', JArr ds)])\<rparr>
             \<and> length ds = Map_size ?t
             \<and> (\<forall>i<length ds.
                   ds ! i = JObj [(''id'', JSON_stringify (fst (?t ! i))), (''object'', JStr ''model''),
                                 (''owned_by'', JStr (providerId (snd (?t ! i))))]
                   \<and> (finite_json (fst (?t ! i)) \<longrightarrow>
                        ds ! i = JObj [(''id'', fst (?t ! i)), (''object'', JStr ''model''),
                                 (''owned_by'', JStr (providerId (snd (?t ! i))))])
                   \<and> providerId (snd (?t ! i)) \<in> fst ` set cfg)"
    by blast
qed

lemma ready_state_map: "MODEL_PROVIDER_MAP ready_state = Some (build_map PROVIDER_CONFIG net_example no_delay)"
  by (simp add: ready_state_def buildModelProviderMap_def build_finish_def)

theorem models_catalog_witness:
  "MODEL_PROVIDER_MAP initial_state = None
   \<and> handleModelsRequest initial_state = text_response CatalogNotReadyText 503
   \<and> MODEL_PROVIDER_MAP ready_state = Some (build_map PROVIDER_CONFIG net_example no_delay)
   \<and> handleModelsRequest ready_state =
       \<lparr>status = 200, statusText = [], headers = [(''Content-Type'', ''application/json'')],
        body = JsonText (JObj [(''object'', JStr ''list''),
          (''data'', JArr
             [JObj [(''id'', JStr ''gpt-5-mini''), (''object'', JStr ''model''), (''owned_by'', JStr ''api.airforce'')],
              JObj [(''id'', JStr ''gpt-4o-mini''), (''object'', JStr ''model''), (''owned_by'', JStr ''api.airforce'')],
              JObj [(''id'', JStr ''m1''), (''object'', JStr ''model''), (''owned_by'', JStr ''gpt4free.pro'')]])])\<rparr>"
  using models_catalog [of initial_state PROVIDER_CONFIG net_example no_delay]
    models_catalog [of ready_state PROVIDER_CONFIG net_example no_delay]
  by (simp add: initial_state_def ready_state_map handleModelsRequest_def build_example model_object_def)

lemma build_infinity:
  "build_map PROVIDER_CONFIG net_infinity no_delay =
    [(JStr ''gpt-5-mini'', \<lparr>providerId = ''api.airforce'', upstreamHost = ''api.airforce'', chatPath = ''/v1/chat/completions''\<rparr>),
     (JStr ''gpt-4o-mini'', \<lparr>providerId = ''api.airforce'', upstreamHost = ''api.airforce'', chatPath = ''/v1/chat/completions''\<rparr>),
     (JNum Infinity, \<lparr>providerId = ''gpt4free.pro'', upstreamHost = ''gpt4free.pro'', chatPath = ''/v1/chat/completions''\<rparr>)]"
  by (simp add: eval_build net_infinity_def)

text \<open>
  C5 as stated fails: a listing with the id \<open>1e999\<close> registers the model \<open>Infinity\<close>,
  and the catalog entry of this model has the id \<open>null\<close> (\<open>JSON.stringify\<close>, line 247).
\<close>

theorem catalog_id_not_finite_counterexample:
  "Map_get (build_map PROVIDER_CONFIG net_infinity no_delay) (JNum Infinity)
     = Some \<lparr>providerId = ''gpt4free.pro'', upstreamHost = ''gpt4free.pro'', chatPath = ''/v1/chat/completions''\<rparr>
   \<and> body (handleModelsRequest (buildModelProviderMap PROVIDER_CONFIG net_infinity no_delay initial_state)) =
       JsonText (JObj [(''object'', JStr ''list''),
          (''data'', JArr
             [JObj [(''id'', JStr ''gpt-5-mini''), (''object'', JStr ''model''), (''owned_by'', JStr ''api.airforce'')],
              JObj [(''id'', JStr ''gpt-4o-mini''), (''object'', JStr ''model''), (''owned_by'', JStr ''api.airforce'')],
              JObj [(''id'', JNull), (''object'', JStr ''model''), (''owned_by'', JStr ''gpt4free.pro'')]])])"
  by (simp add: build_infinity handleModelsRequest_def buildModelProviderMap_def build_finish_def
      model_object_def sameValueZero_def)

section \<open>The chat endpoint\<close>

lemma authorized_iff: "unauthorized h = (h \<noteq> Some (''Bearer '' @ WORKER_API_KEY))"
  by (cases h) (auto simp: unauthorized_def WORKER_API_KEY_def)

lemma chat_dispatched:
  assumes "request_method r = ''POST''"
    and "headers_get r ''Authorization'' = Some (''Bearer '' @ WORKER_API_KEY)"
    and "json r = Some requestBody"
    and "get_prop requestBody ''model'' = Inr (Some modelId)"
    and "truthy modelId"
    and "MODEL_PROVIDER_MAP s = Some t"
    and "Map_get t modelId = Some e"
  shows "handleChatCompletionRequest s chat_net r =
           (Inr (relay modelId (chat_net (upstream_request e requestBody))),
            [upstream_request e requestBody])"
  using assms by (simp add: handleChatCompletionRequest_def authorized_iff dispatch_def)

text \<open>
  C6 (amended). A chat request that passes the four checks (POST, the bearer credential, a
  JSON body with a truthy \<open>model\<close>, a model of the table) sends exactly one request
  upstream: a POST to \<open>https://{upstreamHost}{chatPath}\<close> of the descriptor that the
  registry has for the model's owning provider, with the fixed header set, which has no
  \<open>Authorization\<close>, and with \<open>JSON.stringify\<close> of the parsed body as its body; this is
  the parsed body when all its numbers are finite. Another authorized request with the same
  body sends the same upstream request, whatever its other headers and however the upstream
  answers.
\<close>

theorem upstream_request_fixed:
  assumes "distinct (map fst cfg)"
    and "MODEL_PROVIDER_MAP s = Some (build_map cfg net rank)"
    and "request_method r = ''POST''"
    and "headers_get r ''Authorization'' = Some (''Bearer '' @ WORKER_API_KEY)"
    and "json r = Some requestBody"
    and "get_prop requestBody ''model'' = Inr (Some modelId)"
    and "truthy modelId"
    and "Map_get (build_map cfg net rank) modelId = Some e"
    and "request_method r' = ''POST''"
    and "headers_get r' ''Authorization'' = Some (''Bearer '' @ WORKER_API_KEY)"
    and "json r' = Some requestBody"
  shows "(\<exists>c. map_of cfg (providerId e) = Some c
            \<and> snd (handleChatCompletionRequest s chat_net r) =
                [\<lparr>up_url = ''https://'' @ ProviderConfig.upstreamHost c @ ProviderConfig.chatPath c,
                  up_method = ''POST'', up_headers = outbound_headers,
                  up_body = JSON_stringify requestBody, up_redirect = ''follow''\<rparr>])
         \<and> (finite_json requestBody \<longrightarrow>
              map up_body (snd (handleChatCompletionRequest s chat_net r)) = [requestBody])
         \<and> map fst outbound_headers = [''Content-Type'', ''Accept'', ''Origin'', ''Referer'', ''User-Agent'']
         \<and> snd (handleChatCompletionRequest s chat_net' r') = snd (handleChatCompletionRequest s chat_net r)"
proof (intro conjI)
  from assms(8) have "(modelId, e) \<in> set (build_map cfg net rank)" by (rule Map_get_in)
  from build_map_entry_source[OF assms(1) this] obtain c where
    c: "map_of cfg (providerId e) = Some c" "upstreamHost e = ProviderConfig.upstreamHost c"
       "chatPath e = ProviderConfig.chatPath c" by blast
  have "snd (handleChatCompletionRequest s chat_net r) = [upstream_request e requestBody]"
    using chat_dispatched[OF assms(3,4,5,6,7,2,8)] by simp
  with c show "\<exists>c. map_of cfg (providerId e) = Some c
            \<and> snd (handleChatCompletionRequest s chat_net r) =
                [\<lparr>up_url = ''https://'' @ ProviderConfig.upstreamHost c @ ProviderConfig.chatPath c,
                  up_method = ''POST'', up_headers = outbound_headers,
                  up_body = JSON_stringify requestBody, up_redirect = ''follow''\<rparr>]"
    by (auto simp: upstream_request_def)
  show "finite_json requestBody \<longrightarrow>
          map up_body (snd (handleChatCompletionRequest s chat_net r)) = [requestBody]"
    using chat_dispatched[OF assms(3,4,5,6,7,2,8)]
    by (simp add: upstream_request_def JSON_stringify_finite)
  show "map fst outbound_headers = [''Content-Type'', ''Accept'', ''Origin'', ''Referer'', ''User-Agent'']"
    by (simp add: outbound_headers_def)
  show "snd (handleChatCompletionRequest s chat_net' r') = snd (handleChatCompletionRequest s chat_net r)"
    using chat_dispatched[OF assms(3,4,5,6,7,2,8)] chat_dispatched[OF assms(9,10,11,6,7,2,8)] by simp
qed

lemma get_model_chat_body: "get_prop (chat_body m) ''model'' = Inr (Some (JStr m))"
  by (simp add: chat_body_def)

lemma lookup_m1:
  "Map_get (build_map PROVIDER_CONFIG net_example no_delay) (JStr ''m1'')
     = Some \<lparr>providerId = ''gpt4free.pro'', upstreamHost = ''gpt4free.pro'', chatPath = ''/v1/chat/completions''\<rparr>"
  by (simp add: build_example sameValueZero_def)

lemma distinct_PROVIDER_CONFIG: "distinct (map fst PROVIDER_CONFIG)"
  by (simp add: PROVIDER_CONFIG_def)

theorem upstream_request_fixed_witness:
  "snd (handleChatCompletionRequest ready_state upstream_up (chat_request bearer_headers (Some (chat_body ''m1'')))) =
     [\<lparr>up_url = ''https://gpt4free.pro/v1/chat/completions'', up_method = ''POST'',
       up_headers = outbound_headers, up_body = chat_body ''m1'', up_redirect = ''follow''\<rparr>]
   \<and> snd (handleChatCompletionRequest ready_state upstream_down (chat_request browser_headers (Some (chat_body ''m1''))))
     = snd (handleChatCompletionRequest ready_state upstream_up (chat_request bearer_headers (Some (chat_body ''m1''))))"
proof -
  have a: "headers_get (chat_request bearer_headers (Some (chat_body ''m1''))) ''Authorization'' = Some (''Bearer '' @ WORKER_API_KEY)"
    and a': "headers_get (chat_request browser_headers (Some (chat_body ''m1''))) ''Authorization'' = Some (''Bearer '' @ WORKER_API_KEY)"
    by (simp_all add: chat_request_def bearer_headers_def browser_headers_def WORKER_API_KEY_def)
  have m: "request_method (chat_request bearer_headers (Some (chat_body ''m1''))) = ''POST''"
    and m': "request_method (chat_request browser_headers (Some (chat_body ''m1''))) = ''POST''"
    by (simp_all add: chat_request_def)
  have j: "json (chat_request bearer_headers (Some (chat_body ''m1''))) = Some (chat_body ''m1'')"
    and j': "json (chat_request browser_headers (Some (chat_body ''m1''))) = Some (chat_body ''m1'')"
    by (simp_all add: chat_request_def)
  have t: "truthy (JStr ''m1'')" by simp
  have f: "finite_json (chat_body ''m1'')" by (simp add: chat_body_def)
  from upstream_request_fixed [OF distinct_PROVIDER_CONFIG ready_state_map m a j get_model_chat_body t lookup_m1 m' a' j',
      of upstream_up upstream_down] f
  show ?thesis by (auto simp: PROVIDER_CONFIG_def)
qed

text \<open>
  C6 as stated fails: the body \<open>{"model": "m1", "big": 1e309}\<close> passes the four checks,
  its number parses to \<open>Infinity\<close>, and the body sent upstream has \<open>null\<close> in its place
  (\<open>JSON.stringify\<close>, line 213).
\<close>

theorem upstream_body_reserialised_counterexample:
  "json (chat_request bearer_headers (Some big_body)) = Some big_body
   \<and> map up_body (snd (handleChatCompletionRequest ready_state upstream_up (chat_request bearer_headers (Some big_body))))
       = [JObj [(''model'', JStr ''m1''), (''big'', JNull)]]
   \<and> JObj [(''model'', JStr ''m1''), (''big'', JNull)] \<noteq> big_body"
  by (simp add: handleChatCompletionRequest_def chat_request_def bearer_headers_def unauthorized_def
      WORKER_API_KEY_def big_body_def dispatch_def ready_state_map lookup_m1 upstream_request_def)

lemma new_Response_relayable:
  "relayable up \<Longrightarrow>
     new_Response (res_body up) (res_status up) (res_statusText up) hs =
       Inr \<lparr>status = res_status up, statusText = res_statusText up, headers = hs,
            body = UpstreamBody (res_body up)\<rparr>"
  by (auto simp: new_Response_def relayable_def)

lemma new_Response_refused:
  "\<not> relayable up \<Longrightarrow>
     new_Response (res_body up) (res_status up) (res_statusText up) hs =
       Inl (if res_status up < 200 \<or> 599 < res_status up then RangeError else TypeError)"
  by (auto simp: new_Response_def relayable_def)

text \<open>
  C7 (amended). For a chat request that passes the four checks: if the upstream \<open>fetch\<close>
  resolves with a response that a \<open>Response\<close> can carry (a status from 200 to 599, a
  reason phrase, no body with a status that allows none), the response has the upstream's
  body, status and reason, the upstream's \<open>Content-Type\<close> (or \<open>text/event-stream\<close>
  when there is none or it is empty), \<open>Access-Control-Allow-Origin: *\<close> and
  \<open>Cache-Control: no-cache\<close>. If the \<open>fetch\<close> rejects, the response is the 502 text that
  names the model and the error; if it resolves with a response that a \<open>Response\<close> cannot
  carry, the response is the 502 text that names the model and the constructor's error, a
  RangeError for a status outside 200 to 599. The response is such a 502 text in these two
  cases only.
\<close>

theorem upstream_response_relayed:
  assumes "request_method r = ''POST''"
    and "headers_get r ''Authorization'' = Some (''Bearer '' @ WORKER_API_KEY)"
    and "json r = Some requestBody"
    and "get_prop requestBody ''model'' = Inr (Some modelId)"
    and "truthy modelId"
    and "MODEL_PROVIDER_MAP s = Some t"
    and "Map_get t modelId = Some e"
  shows "(\<forall>up. chat_net (upstream_request e requestBody) = Inr up \<and> relayable up \<longrightarrow>
            fst (handleChatCompletionRequest s chat_net r) =
              Inr \<lparr>status = res_status up, statusText = res_statusText up,
                   headers = [(''Content-Type'',
                                 (case res_content_type up of
                                    None \<Rightarrow> ''text/event-stream''
                                  | Some v \<Rightarrow> if v = [] then ''text/event-stream'' else v)),
                              (''Access-Control-Allow-Origin'', ''*''),
                              (''Cache-Control'', ''no-cache'')],
                   body = UpstreamBody (res_body up)\<rparr>)
       \<and> (\<forall>err. chat_net (upstream_request e requestBody) = Inl err \<longrightarrow>
            fst (handleChatCompletionRequest s chat_net r) =
              Inr (text_response (UpstreamFailedText modelId err) 502))
       \<and> (\<forall>up. chat_net (upstream_request e requestBody) = Inr up \<and> \<not> relayable up \<longrightarrow>
            fst (handleChatCompletionRequest s chat_net r) =
              Inr (text_response
                     (UpstreamFailedText modelId
                        (if res_status up < 200 \<or> 599 < res_status up then RangeError else TypeError)) 502))
       \<and> ((\<exists>err. fst (handleChatCompletionRequest s chat_net r) =
                       Inr (text_response (UpstreamFailedText modelId err) 502))
            = ((\<exists>err. chat_net (upstream_request e requestBody) = Inl err)
               \<or> (\<exists>up. chat_net (upstream_request e requestBody) = Inr up \<and> \<not> relayable up)))"
proof -
  have h: "fst (handleChatCompletionRequest s chat_net r) = Inr (relay modelId (chat_net (upstream_request e requestBody)))"
    using chat_dispatched[OF assms] by simp
  show ?thesis
  proof (cases "chat_net (upstream_request e requestBody)")
    case (Inl err)
    then show ?thesis unfolding h by (simp add: relay_def text_response_def)
  next
    case (Inr up)
    show ?thesis
    proof (cases "relayable up")
      case True
      with Inr show ?thesis unfolding h
        by (simp add: relay_def new_Response_relayable content_type_or_default_def text_response_def)
    next
      case False
      with Inr show ?thesis unfolding h
        by (simp add: relay_def new_Response_refused text_response_def)
    qed
  qed
qed

theorem upstream_response_relayed_witness:
  "fst (handleChatCompletionRequest ready_state upstream_up (chat_request bearer_headers (Some (chat_body ''m1''))))
     = Inr \<lparr>status = 200, statusText = ''OK'',
            headers = [(''Content-Type'', ''text/event-stream''),
                       (''Access-Control-Allow-Origin'', ''*''), (''Cache-Control'', ''no-cache'')],
            body = UpstreamBody (Some [''data: [DONE]''])\<rparr>
   \<and> fst (handleChatCompletionRequest ready_state upstream_down (chat_request bearer_headers (Some (chat_body ''m1''))))
     = Inr (text_response (UpstreamFailedText (JStr ''m1'') (NetworkError ''connection refused'')) 502)"
proof -
  have a: "headers_get (chat_request bearer_headers (Some (chat_body ''m1''))) ''Authorization'' = Some (''Bearer '' @ WORKER_API_KEY)"
    by (simp add: chat_request_def bearer_headers_def WORKER_API_KEY_def)
  have m: "request_method (chat_request bearer_headers (Some (chat_body ''m1''))) = ''POST''"
    by (simp add: chat_request_def)
  have j: "json (chat_request bearer_headers (Some (chat_body ''m1''))) = Some (chat_body ''m1'')"
    by (simp add: chat_request_def)
  have t: "truthy (JStr ''m1'')" by simp
  have ok: "relayable \<lparr>res_status = 200, res_statusText = ''OK'', res_content_type = None,
          res_body = Some [''data: [DONE]'']\<rparr>"
    by (simp add: relayable_def reason_phrase_def null_body_status_def)
  from upstream_response_relayed [OF m a j get_model_chat_body t ready_state_map lookup_m1, of upstream_up]
    upstream_response_relayed [OF m a j get_model_chat_body t ready_state_map lookup_m1, of upstream_down] ok
  show ?thesis by (simp add: upstream_up_def upstream_down_def)
qed

text \<open>
  C7 as stated fails: the upstream \<open>fetch\<close> resolves with the status 999, and the caller
  receives the 502 text with a RangeError, not the status 999 (the \<open>new Response\<close> of
  line 219 is inside the \<open>try\<close>).
\<close>

theorem upstream_status_999_counterexample:
  "upstream_999 (upstream_request \<lparr>providerId = ''gpt4free.pro'', upstreamHost = ''gpt4free.pro'', chatPath = ''/v1/chat/completions''\<rparr> (chat_body ''m1''))
     = Inr \<lparr>res_status = 999, res_statusText = ''Request denied'', res_content_type = Some ''text/html'',
          res_body = Some [''<html></html>'']\<rparr>
   \<and> handleChatCompletionRequest ready_state upstream_999 (chat_request bearer_headers (Some (chat_body ''m1'')))
     = (Inr (text_response (UpstreamFailedText (JStr ''m1'') RangeError) 502),
        [upstream_request \<lparr>providerId = ''gpt4free.pro'', upstreamHost = ''gpt4free.pro'', chatPath = ''/v1/chat/completions''\<rparr> (chat_body ''m1'')])"
  by (simp add: handleChatCompletionRequest_def chat_request_def bearer_headers_def unauthorized_def
      WORKER_API_KEY_def chat_body_def dispatch_def ready_state_map lookup_m1 relay_def
      new_Response_def upstream_999_def)

section \<open>The entry point and overlapping requests\<close>

lemma build_map_all_failed:
  assumes "\<forall>pc\<in>set cfg. is_dynamic (snd pc) \<and> fetch_failed (net (fst pc))"
  shows "build_map cfg net rank = []"
proof -
  from assms have "\<forall>pc\<in>set cfg. task_models net pc = []" by (simp add: failed_task_models)
  then have "fst ` set (build_map cfg net rank) = {}" by (simp add: build_map_keys)
  then show ?thesis by simp
qed

text \<open>
  C10. Through \<open>fetch\<close>, a request for \<open>/v1/models\<close> is answered 200 with a model list
  in every state of the global, never 503: when the global is \<open>null\<close> the build runs first
  and assigns a table. The list is empty when this build finds every provider dynamic and
  failing.
\<close>

theorem models_route_never_unavailable:
  assumes "url_pathname r = ''/v1/models''"
  shows "\<exists>ds. fst (snd (worker_fetch cfg net rank chat_net s r)) =
            Inr \<lparr>status = 200, statusText = [], headers = [(''Content-Type'', ''application/json'')],
                 body = JsonText (JObj [(''object'', JStr ''list''), (''data'', JArr ds)])\<rparr>
          \<and> (MODEL_PROVIDER_MAP s = None
               \<and> (\<forall>pc\<in>set cfg. is_dynamic (snd pc) \<and> fetch_failed (net (fst pc))) \<longrightarrow> ds = [])"
proof (cases "MODEL_PROVIDER_MAP s")
  case None
  then have "fst (snd (worker_fetch cfg net rank chat_net s r)) =
      Inr \<lparr>status = 200, statusText = [], headers = [(''Content-Type'', ''application/json'')],
           body = JsonText (JObj [(''object'', JStr ''list''),
                    (''data'', JArr (map (\<lambda>kv. JSON_stringify (model_object kv))
                                     (build_map cfg net rank)))])\<rparr>"
    using assms
    by (simp add: worker_fetch_def handleModelsRequest_def buildModelProviderMap_def build_finish_def
        comp_def)
  then show ?thesis using build_map_all_failed[of cfg net rank] by auto
next
  case (Some t)
  then show ?thesis using assms by (simp add: worker_fetch_def handleModelsRequest_def)
qed

theorem models_route_never_unavailable_witness:
  "url_pathname models_request = ''/v1/models''
   \<and> fst (snd (worker_fetch (tl PROVIDER_CONFIG) net_down no_delay upstream_down initial_state models_request)) =
       Inr \<lparr>status = 200, statusText = [], headers = [(''Content-Type'', ''application/json'')],
            body = JsonText (JObj [(''object'', JStr ''list''), (''data'', JArr [])])\<rparr>"
proof -
  have h: "url_pathname models_request = ''/v1/models''" by (simp add: models_request_def)
  have f: "\<forall>pc\<in>set (tl PROVIDER_CONFIG). is_dynamic (snd pc) \<and> fetch_failed (net_down (fst pc))"
    by (simp add: PROVIDER_CONFIG_def is_dynamic_def truthy_modelsPath_def net_down_def fetch_failed_def)
  from models_route_never_unavailable [OF h, of "tl PROVIDER_CONFIG" net_down no_delay upstream_down initial_state] f h
  show ?thesis by (auto simp: initial_state_def)
qed

text \<open>
  The checks of \<open>handleChatCompletionRequest\<close> that answer without an upstream request, in
  their order: 405, 401, 400 for a body other than \<open>null\<close> without a truthy \<open>model\<close>, 404
  with the unresolved id.
\<close>

lemma chat_preconditions_in_order:
  "(request_method r \<noteq> ''POST'' \<longrightarrow>
      handleChatCompletionRequest s chat_net r = (Inr (text_response MethodNotAllowedText 405), []))
   \<and> (request_method r = ''POST'' \<and> headers_get r ''Authorization'' \<noteq> Some (''Bearer '' @ WORKER_API_KEY) \<longrightarrow>
      handleChatCompletionRequest s chat_net r = (Inr (text_response UnauthorizedText 401), []))
   \<and> (request_method r = ''POST'' \<and> headers_get r ''Authorization'' = Some (''Bearer '' @ WORKER_API_KEY)
        \<and> json r = Some b \<and> b \<noteq> JNull \<and> \<not> Boolean (own_field ''model'' b) \<longrightarrow>
      handleChatCompletionRequest s chat_net r = (Inr (text_response MissingModelText 400), []))
   \<and> (request_method r = ''POST'' \<and> headers_get r ''Authorization'' = Some (''Bearer '' @ WORKER_API_KEY)
        \<and> json r = Some b \<and> own_field ''model'' b = Some m \<and> truthy m
        \<and> MODEL_PROVIDER_MAP s = Some t \<and> Map_get t m = None \<longrightarrow>
      handleChatCompletionRequest s chat_net r = (Inr (text_response (ModelNotFoundText m) 404), []))"
  by (cases b)
     (auto simp: handleChatCompletionRequest_def authorized_iff dispatch_def own_field_def
           split: option.splits)

text \<open>
  C1 (the code at the failing input). An authorized POST whose body is not JSON is not
  answered 400: \<open>await request.json()\<close> (line 187) rejects and the SyntaxError leaves the
  handler. The body \<open>null\<close> parses, and line 188 throws a TypeError on it.
\<close>

theorem chat_body_not_json_throws:
  "handleChatCompletionRequest s chat_net (chat_request bearer_headers None) = (Inl SyntaxError, [])
   \<and> handleChatCompletionRequest s chat_net (chat_request bearer_headers (Some JNull)) = (Inl TypeError, [])"
  by (simp add: handleChatCompletionRequest_def chat_request_def bearer_headers_def
      unauthorized_def WORKER_API_KEY_def)

text \<open>
  C2 (the code at the failing input). Two requests arrive on a cold isolate, the second
  while the build of the first waits for its discovery requests: the global is still
  \<open>null\<close> (line 140), so \<open>buildModelProviderMap\<close> is called twice and every discovery
  endpoint is queried twice.
\<close>

theorem overlapping_requests_build_twice:
  "builds (run PROVIDER_CONFIG [Arrive, Arrive]) = 2
   \<and> count_list (fetched (globals (run PROVIDER_CONFIG [Arrive, Arrive])))
        (''anondrop.net'', ''https://anondrop.net/v1/models'') = 2"
  by (simp add: run_def cold_def initial_state_def build_begin_def discovery_requests_def
      PROVIDER_CONFIG_def is_dynamic_def truthy_modelsPath_def models_url_def)

text \<open>No step takes the global back to \<open>null\<close>.\<close>

lemma global_stays_built:
  "MODEL_PROVIDER_MAP (globals i) \<noteq> None \<Longrightarrow> MODEL_PROVIDER_MAP (globals (step cfg i ev)) \<noteq> None"
  by (cases ev) (auto simp: build_finish_def)

text \<open>Requests that arrive after the first build has finished do not build again.\<close>

lemma arrivals_when_ready:
  "MODEL_PROVIDER_MAP (globals i) \<noteq> None \<Longrightarrow> foldl (step cfg) i (replicate n Arrive) = i"
  by (induction n) auto

lemma requests_after_build_do_not_rebuild:
  "builds (run cfg (Arrive # Settle net rank # replicate n Arrive)) = 1
   \<and> fetched (globals (run cfg (Arrive # Settle net rank # replicate n Arrive))) = discovery_requests cfg"
proof -
  let ?i = "step cfg (step cfg cold Arrive) (Settle net rank)"
  have "MODEL_PROVIDER_MAP (globals ?i) \<noteq> None"
    by (simp add: cold_def initial_state_def build_finish_def)
  then have "run cfg (Arrive # Settle net rank # replicate n Arrive) = ?i"
    by (simp add: run_def arrivals_when_ready)
  then show ?thesis
    by (simp add: cold_def initial_state_def build_begin_def build_finish_def)
qed

end
